theory Spec2Isabelle
  imports Complex_Main
begin

section \<open>Telemetry line interpreter of the Collision dashboard\<close>

text \<open>
  The repository holds two variants of the dashboard. \<^verbatim>\<open>src/App.tsx\<close> parses a
  notification in \<^verbatim>\<open>handleData\<close> with two strict patterns (the strict variant);
  \<^verbatim>\<open>src/unnamed/part_000\<close> parses a line in \<^verbatim>\<open>processLine\<close> with tolerant
  patterns (the fuzzy variant). Both are embedded here, with the pieces of the JavaScript
  runtime they call: strings, numbers, \<^verbatim>\<open>trim\<close>, \<^verbatim>\<open>match\<close>,
  \<^verbatim>\<open>parseInt\<close> and \<^verbatim>\<open>parseFloat\<close>.
\<close>

subsection \<open>Strings\<close>

text \<open>
  A JavaScript string is a sequence of UTF-16 code units; a code unit is a natural number.
  \<open>cu\<close> turns an ASCII literal into code units.
\<close>

type_synonym jsstring = "nat list"

definition cu :: "string \<Rightarrow> jsstring" where
  "cu s = map of_char s"

text \<open>White space and line terminators: what \<^verbatim>\<open>trim\<close> strips and \<^verbatim>\<open>\s\<close> matches.\<close>

definition is_ws :: "nat \<Rightarrow> bool" where
  "is_ws c \<longleftrightarrow>
     c = 9 \<or> c = 10 \<or> c = 11 \<or> c = 12 \<or> c = 13 \<or> c = 32 \<or> c = 160 \<or> c = 5760
     \<or> (8192 \<le> c \<and> c \<le> 8202) \<or> c = 8232 \<or> c = 8233 \<or> c = 8239 \<or> c = 8287
     \<or> c = 12288 \<or> c = 65279"

definition is_digit :: "nat \<Rightarrow> bool" where
  "is_digit c \<longleftrightarrow> 48 \<le> c \<and> c \<le> 57"

definition trim :: "jsstring \<Rightarrow> jsstring" where
  "trim s = rev (dropWhile is_ws (rev (dropWhile is_ws s)))"

subsection \<open>Numbers\<close>

text \<open>
  A JavaScript number is an IEEE 754 binary64 value: not-a-number, the two infinities,
  negative zero, or a finite value (\<open>Fin 0\<close> is positive zero), kept as the rational it
  denotes.
\<close>

datatype number = NaN | NegInf | NegZero | Fin rat | PosInf

fun num_key :: "number \<Rightarrow> (int \<times> rat) option" where
  "num_key NaN = None"
| "num_key NegInf = Some (- 1, 0)"
| "num_key NegZero = Some (0, 0)"
| "num_key (Fin q) = Some (0, q)"
| "num_key PosInf = Some (1, 0)"

text \<open>The comparisons \<^verbatim>\<open><\<close>, \<^verbatim>\<open><=\<close>, \<^verbatim>\<open>===\<close>: false as soon as one side is not a number.\<close>

definition num_lt :: "number \<Rightarrow> number \<Rightarrow> bool" where
  "num_lt a b = (case (num_key a, num_key b) of
      (Some (i, p), Some (j, q)) \<Rightarrow> i < j \<or> (i = j \<and> p < q)
    | _ \<Rightarrow> False)"

definition num_le :: "number \<Rightarrow> number \<Rightarrow> bool" where
  "num_le a b = (case (num_key a, num_key b) of
      (Some (i, p), Some (j, q)) \<Rightarrow> i < j \<or> (i = j \<and> p \<le> q)
    | _ \<Rightarrow> False)"

definition num_gt :: "number \<Rightarrow> number \<Rightarrow> bool" where
  "num_gt a b = num_lt b a"

definition num_ge :: "number \<Rightarrow> number \<Rightarrow> bool" where
  "num_ge a b = num_le b a"

definition strict_eq :: "number \<Rightarrow> number \<Rightarrow> bool" where
  "strict_eq a b = (case (num_key a, num_key b) of
      (Some x, Some y) \<Rightarrow> x = y
    | _ \<Rightarrow> False)"

fun num_abs :: "number \<Rightarrow> number" where
  "num_abs NaN = NaN"
| "num_abs NegInf = PosInf"
| "num_abs NegZero = Fin 0"
| "num_abs (Fin q) = Fin \<bar>q\<bar>"
| "num_abs PosInf = PosInf"

fun num_neg :: "number \<Rightarrow> number" where
  "num_neg NaN = NaN"
| "num_neg NegInf = PosInf"
| "num_neg NegZero = Fin 0"
| "num_neg (Fin q) = (if q = 0 then NegZero else Fin (- q))"
| "num_neg PosInf = NegInf"

text \<open>
  Rounding a non-negative rational \<open>n / d\<close> (with \<open>d > 0\<close>) to binary64, to nearest
  with ties to even. \<open>bits\<close> is the bit length; \<open>flog2 n d\<close> is the exponent \<open>e\<close> of the
  leading bit, \<open>2 ^ e \<le> n / d < 2 ^ (e + 1)\<close>; \<open>rhe n d\<close> is \<open>n / d\<close> rounded to an
  integer, a tie going to the even one. The unit of the last place is \<open>2 ^ u\<close>,
  \<open>u = max (e - 52) (-1074)\<close>: 53 significant bits, and the fixed unit of the subnormal
  range below. A rounded value of \<open>2 ^ 1024\<close> or more is infinite.
\<close>

fun bits :: "nat \<Rightarrow> nat" where
  "bits n = (if n = 0 then 0 else Suc (bits (n div 2)))"

declare bits.simps [simp del]

definition flog2 :: "nat \<Rightarrow> nat \<Rightarrow> int" where
  "flog2 n d = (let k = int (bits n) - int (bits d)
                in if (if 0 \<le> k then d * 2 ^ nat k \<le> n else d \<le> n * 2 ^ nat (- k))
                   then k else k - 1)"

definition rhe :: "nat \<Rightarrow> nat \<Rightarrow> nat" where
  "rhe n d = (let q = n div d; r = n mod d
              in if 2 * r < d then q
                 else if d < 2 * r then q + 1
                 else if even q then q else q + 1)"

definition toDouble :: "nat \<Rightarrow> nat \<Rightarrow> number" where
  "toDouble n d =
     (if n = 0 then Fin 0
      else let u = max (flog2 n d - 52) (- 1074)
           in if 0 \<le> u then
                (let m = rhe n (d * 2 ^ nat u)
                 in if 2 ^ 1024 \<le> m * 2 ^ nat u then PosInf else Fin (of_nat (m * 2 ^ nat u)))
              else
                (let m = rhe (n * 2 ^ nat (- u)) d
                 in Fin (of_nat m / 2 ^ nat (- u))))"

subsection \<open>\<^verbatim>\<open>parseInt\<close> and \<^verbatim>\<open>parseFloat\<close>\<close>

definition digit_val :: "nat \<Rightarrow> nat" where
  "digit_val c = c - 48"

definition digits_val :: "jsstring \<Rightarrow> nat" where
  "digits_val ds = foldl (\<lambda>a c. 10 * a + digit_val c) 0 ds"

definition is_hex :: "nat \<Rightarrow> bool" where
  "is_hex c \<longleftrightarrow> is_digit c \<or> (65 \<le> c \<and> c \<le> 70) \<or> (97 \<le> c \<and> c \<le> 102)"

definition hex_val :: "nat \<Rightarrow> nat" where
  "hex_val c = (if is_digit c then c - 48 else if c \<le> 70 then c - 55 else c - 87)"

text \<open>A leading sign: \<open>(negative, rest)\<close>.\<close>

definition split_sign :: "jsstring \<Rightarrow> bool \<times> jsstring" where
  "split_sign s = (case s of
      c # r \<Rightarrow> if c = 45 then (True, r) else if c = 43 then (False, r) else (False, s)
    | [] \<Rightarrow> (False, s))"

definition signed :: "bool \<Rightarrow> number \<Rightarrow> number" where
  "signed neg x = (if neg then num_neg x else x)"

text \<open>
  \<^verbatim>\<open>parseInt(s)\<close> with no radix: leading white space, a sign, a \<^verbatim>\<open>0x\<close> prefix for
  radix 16, then the longest run of digits; no digit gives \<open>NaN\<close>.
\<close>

definition parseInt :: "jsstring \<Rightarrow> number" where
  "parseInt s =
     (let (neg, r) = split_sign (dropWhile is_ws s)
      in case r of
           a # b # h \<Rightarrow>
             if a = 48 \<and> (b = 120 \<or> b = 88) then
               (let z = takeWhile is_hex h
                in if z = [] then NaN
                   else signed neg (toDouble (foldl (\<lambda>a c. 16 * a + hex_val c) 0 z) 1))
             else
               (let z = takeWhile is_digit r
                in if z = [] then NaN else signed neg (toDouble (digits_val z) 1))
         | _ \<Rightarrow>
               (let z = takeWhile is_digit r
                in if z = [] then NaN else signed neg (toDouble (digits_val z) 1)))"

text \<open>
  The exponent part of a decimal literal: \<^verbatim>\<open>e\<close> or \<^verbatim>\<open>E\<close>, an optional sign and
  at least one digit; otherwise the exponent is 0.
\<close>

definition exponent_part :: "jsstring \<Rightarrow> int" where
  "exponent_part s = (case s of
      c # r \<Rightarrow>
        if c = 101 \<or> c = 69 then
          (let (neg, r') = split_sign r; z = takeWhile is_digit r'
           in if z = [] then 0
              else if neg then - int (digits_val z) else int (digits_val z))
        else 0
    | [] \<Rightarrow> 0)"

text \<open>
  \<^verbatim>\<open>parseFloat(s)\<close>: leading white space, a sign, then the longest prefix that is a
  decimal literal (\<^verbatim>\<open>Infinity\<close>, or digits with an optional fraction and exponent, at
  least one digit before or after the point); no such prefix gives \<open>NaN\<close>.
\<close>

definition parseFloat :: "jsstring \<Rightarrow> number" where
  "parseFloat s =
     (let (neg, r) = split_sign (dropWhile is_ws s)
      in if take 8 r = cu ''Infinity'' then signed neg PosInf
         else
           let ip = takeWhile is_digit r;
               r1 = dropWhile is_digit r;
               fp = (case r1 of c # t \<Rightarrow> if c = 46 then takeWhile is_digit t else [] | [] \<Rightarrow> []);
               r2 = (case r1 of c # t \<Rightarrow> if c = 46 then dropWhile is_digit t else r1 | [] \<Rightarrow> r1)
           in if ip = [] \<and> fp = [] then NaN
              else
                let e = exponent_part r2 - int (length fp);
                    m = digits_val (ip @ fp)
                in signed neg (if 0 \<le> e then toDouble (m * 10 ^ nat e) 1
                               else toDouble m (10 ^ nat (- e))))"

subsection \<open>Regular expressions\<close>

text \<open>
  The patterns of the two variants use literals, alternatives of literals, character
  classes, greedy repetition of a class, an optional character and capture groups.
  \<open>run\<close> is the backtracking matcher at one start position: alternatives in order, the
  longest repetition first. \<open>rx_match\<close> is \<^verbatim>\<open>String.prototype.match\<close> for a pattern
  without the \<^verbatim>\<open>g\<close> flag: the match at the leftmost start position, as the list of its
  captured groups, or \<open>None\<close> for \<^verbatim>\<open>null\<close>.
\<close>

datatype cls = Digit | Space | AnyOf string | Either cls cls

fun in_cls :: "cls \<Rightarrow> nat \<Rightarrow> bool" where
  "in_cls Digit c = is_digit c"
| "in_cls Space c = is_ws c"
| "in_cls (AnyOf s) c = (c \<in> set (cu s))"
| "in_cls (Either a b) c = (in_cls a c \<or> in_cls b c)"

datatype rx = Chars string | Alt "string list" | Rep cls nat | Opt cls | GOpen | GClose

text \<open>
  With the \<^verbatim>\<open>i\<close> flag two code units match when their upper-case forms agree. The
  pattern characters are ASCII, and no code unit above 127 has an ASCII upper-case form
  under this flag, so only the ASCII letters are folded.
\<close>

definition canon :: "nat \<Rightarrow> nat" where
  "canon c = (if 97 \<le> c \<and> c \<le> 122 then c - 32 else c)"

definition ch_eq :: "bool \<Rightarrow> nat \<Rightarrow> nat \<Rightarrow> bool" where
  "ch_eq ci p c = (if ci then canon p = canon c else p = c)"

fun lit_prefix :: "bool \<Rightarrow> jsstring \<Rightarrow> jsstring \<Rightarrow> bool" where
  "lit_prefix ci [] s = True"
| "lit_prefix ci (p # ps) [] = False"
| "lit_prefix ci (p # ps) (c # cs) = (ch_eq ci p c \<and> lit_prefix ci ps cs)"

fun first_some :: "('a \<Rightarrow> 'b option) \<Rightarrow> 'a list \<Rightarrow> 'b option" where
  "first_some f [] = None"
| "first_some f (x # xs) = (case f x of Some y \<Rightarrow> Some y | None \<Rightarrow> first_some f xs)"

fun run :: "bool \<Rightarrow> rx list \<Rightarrow> jsstring \<Rightarrow> jsstring list \<Rightarrow> jsstring list
            \<Rightarrow> jsstring list option" where
  "run ci [] s opn caps = Some (rev caps)"
| "run ci (Chars l # r) s opn caps =
     (if lit_prefix ci (cu l) s then run ci r (drop (length l) s) opn caps else None)"
| "run ci (Alt ls # r) s opn caps =
     first_some (\<lambda>l. if lit_prefix ci (cu l) s then run ci r (drop (length l) s) opn caps
                     else None) ls"
| "run ci (Rep k n # r) s opn caps =
     first_some (\<lambda>j. run ci r (drop j s) opn caps)
       (rev [n ..< Suc (length (takeWhile (in_cls k) s))])"
| "run ci (Opt k # r) s opn caps =
     (case (case s of c # t \<Rightarrow> if in_cls k c then run ci r t opn caps else None | [] \<Rightarrow> None) of
        Some y \<Rightarrow> Some y
      | None \<Rightarrow> run ci r s opn caps)"
| "run ci (GOpen # r) s opn caps = run ci r s (s # opn) caps"
| "run ci (GClose # r) s opn caps =
     (case opn of
        s0 # opn' \<Rightarrow> run ci r s opn' (take (length s0 - length s) s0 # caps)
      | [] \<Rightarrow> None)"

fun rx_match :: "bool \<Rightarrow> rx list \<Rightarrow> jsstring \<Rightarrow> jsstring list option" where
  "rx_match ci r [] = run ci r [] [] []"
| "rx_match ci r (c # s) =
     (case run ci r (c # s) [] [] of Some y \<Rightarrow> Some y | None \<Rightarrow> rx_match ci r s)"

declare rx_match.simps [simp del]

subsection \<open>The safety state (\<^verbatim>\<open>src/unnamed/part_002\<close>, imported as \<^verbatim>\<open>./types\<close>)\<close>

record SensorData =
  sid :: number
  distance :: number
  lastUpdate :: number

record GpsData =
  lat :: number
  lng :: number
  valid :: bool
  gpsLastUpdate :: number

text \<open>
  \<^verbatim>\<open>sensors\<close> is a \<^verbatim>\<open>Record<number, SensorData>\<close>: an object indexed by a number. The
  property key of a number is its string form, which is the same for two numbers only when
  they are the two zeros; \<open>prop_key\<close> picks the positive one.
\<close>

record BikeState =
  leftDanger :: bool
  rightDanger :: bool
  backDanger :: bool
  sensors :: "number \<rightharpoonup> SensorData"
  gps :: GpsData
  isConnected :: bool

definition prop_key :: "number \<Rightarrow> number" where
  "prop_key x = (if x = NegZero then Fin 0 else x)"

text \<open>The state both variants start from (\<^verbatim>\<open>useState\<close>).\<close>

definition initialState :: BikeState where
  "initialState = \<lparr>
     leftDanger = False, rightDanger = False, backDanger = False,
     sensors = [Fin 1 \<mapsto> \<lparr>sid = Fin 1, distance = Fin 999, lastUpdate = Fin 0\<rparr>,
                Fin 2 \<mapsto> \<lparr>sid = Fin 2, distance = Fin 999, lastUpdate = Fin 0\<rparr>,
                Fin 3 \<mapsto> \<lparr>sid = Fin 3, distance = Fin 999, lastUpdate = Fin 0\<rparr>],
     gps = \<lparr>lat = Fin 0, lng = Fin 0, valid = False, gpsLastUpdate = Fin 0\<rparr>,
     isConnected = False\<rparr>"

subsection \<open>The state updates shared by both variants\<close>

text \<open>
  The sensor update, as both files write it: \<^verbatim>\<open>isDanger\<close> is computed from the distance
  and the threshold 150.0, and the function passed to \<^verbatim>\<open>setBikeState\<close> stores the reading
  under the key \<^verbatim>\<open>id\<close> and replaces the flag of sensor 1, 2 or 3. \<open>now\<close> is the value
  \<^verbatim>\<open>Date.now()\<close> returns there.
\<close>

definition isDanger :: "number \<Rightarrow> bool" where
  "isDanger d \<longleftrightarrow> num_lt d (Fin 150) \<and> num_gt d (Fin 0)"

definition sensorUpdate :: "number \<Rightarrow> number \<Rightarrow> number \<Rightarrow> BikeState \<Rightarrow> BikeState" where
  "sensorUpdate i d now prev = prev\<lparr>
     sensors := (sensors prev)(prop_key i \<mapsto> \<lparr>sid = i, distance = d, lastUpdate = now\<rparr>),
     leftDanger := (if strict_eq i (Fin 1) then isDanger d else leftDanger prev),
     rightDanger := (if strict_eq i (Fin 2) then isDanger d else rightDanger prev),
     backDanger := (if strict_eq i (Fin 3) then isDanger d else backDanger prev)\<rparr>"

text \<open>The GPS update: the whole fix is replaced.\<close>

definition gpsUpdate :: "number \<Rightarrow> number \<Rightarrow> bool \<Rightarrow> number \<Rightarrow> BikeState \<Rightarrow> BikeState" where
  "gpsUpdate la lo v now prev =
     prev\<lparr>gps := \<lparr>lat = la, lng = lo, valid = v, gpsLastUpdate = now\<rparr>\<rparr>"

subsection \<open>The strict variant: \<^verbatim>\<open>handleData\<close> in \<^verbatim>\<open>src/App.tsx\<close>\<close>

text \<open>\<^verbatim>\<open>setLogs(prev => [msg, ...prev].slice(0, 10))\<close>: newest first, ten kept.\<close>

definition addLog_strict :: "jsstring \<Rightarrow> jsstring list \<Rightarrow> jsstring list" where
  "addLog_strict msg prev = take 10 (msg # prev)"

text \<open>\<^verbatim>\<open>/ID (\d+): Distance = ([\d.]+) cm/\<close>\<close>

definition sensor_strict_rx :: "rx list" where
  "sensor_strict_rx =
     [Chars ''ID '', GOpen, Rep Digit 1, GClose, Chars '': Distance = '',
      GOpen, Rep (Either Digit (AnyOf ''.'')) 1, GClose, Chars '' cm'']"

text \<open>\<^verbatim>\<open>/Lat: ([\d.-]+)\s+Lng: ([\d.-]+)/\<close>\<close>

definition gps_strict_rx :: "rx list" where
  "gps_strict_rx =
     [Chars ''Lat: '', GOpen, Rep (Either Digit (AnyOf ''.-'')) 1, GClose, Rep Space 1,
      Chars ''Lng: '', GOpen, Rep (Either Digit (AnyOf ''.-'')) 1, GClose]"

text \<open>
  \<open>handleData v tS tG (prev, logs)\<close>: \<open>v\<close> is the decoded text of the characteristic's
  value, \<open>None\<close> when the value is missing; \<open>tS\<close> and \<open>tG\<close> are what \<^verbatim>\<open>Date.now()\<close>
  returns in the sensor update and in the GPS update. The result is the new state and the
  new log.
\<close>

definition handleData ::
  "jsstring option \<Rightarrow> number \<Rightarrow> number \<Rightarrow> BikeState \<times> jsstring list
   \<Rightarrow> BikeState \<times> jsstring list" where
  "handleData v tS tG st =
     (case v of
        None \<Rightarrow> st
      | Some raw \<Rightarrow>
          let line = trim raw
          in if line = [] then st
             else
               let logs = addLog_strict line (snd st);
                   s1 = (case rx_match False sensor_strict_rx line of
                           Some (g1 # g2 # _) \<Rightarrow>
                             sensorUpdate (parseInt g1) (parseFloat g2) tS (fst st)
                         | _ \<Rightarrow> fst st);
                   s2 = (case rx_match False gps_strict_rx line of
                           Some (g1 # g2 # _) \<Rightarrow>
                             gpsUpdate (parseFloat g1) (parseFloat g2) True tG s1
                         | _ \<Rightarrow> s1)
               in (s2, logs))"

subsection \<open>The fuzzy variant: \<^verbatim>\<open>processLine\<close> in \<^verbatim>\<open>src/unnamed/part_000\<close>\<close>

text \<open>\<^verbatim>\<open>setLogs(prev => [msg, ...prev].slice(0, 50))\<close>\<close>

definition addLog_fuzzy :: "jsstring \<Rightarrow> jsstring list \<Rightarrow> jsstring list" where
  "addLog_fuzzy msg prev = take 50 (msg # prev)"

text \<open>\<^verbatim>\<open>/(?:ID|Sensor|S)\s*(\d+)[:\s=]+([\d.]+)/i\<close>\<close>

definition sensor_rx :: "rx list" where
  "sensor_rx =
     [Alt [''ID'', ''Sensor'', ''S''], Rep Space 0, GOpen, Rep Digit 1, GClose,
      Rep (Either (AnyOf '':'') (Either Space (AnyOf ''=''))) 1,
      GOpen, Rep (Either Digit (AnyOf ''.'')) 1, GClose]"

text \<open>\<^verbatim>\<open>/(?:Lat|Latitude|GPS)[:\s=]+([\d.-]+)/i\<close>\<close>

definition lat_rx :: "rx list" where
  "lat_rx =
     [Alt [''Lat'', ''Latitude'', ''GPS''],
      Rep (Either (AnyOf '':'') (Either Space (AnyOf ''=''))) 1,
      GOpen, Rep (Either Digit (AnyOf ''.-'')) 1, GClose]"

text \<open>\<^verbatim>\<open>/(?:Lng|Longitude|Lon)[:\s=]+([\d.-]+)/i\<close>\<close>

definition lng_rx :: "rx list" where
  "lng_rx =
     [Alt [''Lng'', ''Longitude'', ''Lon''],
      Rep (Either (AnyOf '':'') (Either Space (AnyOf ''=''))) 1,
      GOpen, Rep (Either Digit (AnyOf ''.-'')) 1, GClose]"

text \<open>\<^verbatim>\<open>/(-?\d+\.\d+),\s*(-?\d+\.\d+)/\<close>\<close>

definition commaGps_rx :: "rx list" where
  "commaGps_rx =
     [GOpen, Opt (AnyOf ''-''), Rep Digit 1, Chars ''.'', Rep Digit 1, GClose,
      Chars '','', Rep Space 0,
      GOpen, Opt (AnyOf ''-''), Rep Digit 1, Chars ''.'', Rep Digit 1, GClose]"

text \<open>
  The sensor part of \<^verbatim>\<open>processLine\<close>, on the trimmed line: the update is applied only
  when \<^verbatim>\<open>id >= 1 && id <= 3\<close>.
\<close>

definition sensorPart :: "jsstring \<Rightarrow> number \<Rightarrow> BikeState \<Rightarrow> BikeState" where
  "sensorPart cleanLine tS prev =
     (case rx_match True sensor_rx cleanLine of
        Some (g1 # g2 # _) \<Rightarrow>
          let i = parseInt g1; d = parseFloat g2
          in if num_ge i (Fin 1) \<and> num_le i (Fin 3) then sensorUpdate i d tS prev else prev
      | _ \<Rightarrow> prev)"

text \<open>
  The GPS part: \<open>gpsFound\<close> is \<open>Some (lat, lng)\<close> when \<^verbatim>\<open>found\<close> is set, from the two
  labelled patterns when both match and else from the comma pattern; \<open>hasFix\<close> is the
  validity of the fix, \<^verbatim>\<open>Math.abs(lat) > 0.0001 || Math.abs(lng) > 0.0001\<close>, and
  \<open>epsilon\<close> the number the literal \<^verbatim>\<open>0.0001\<close> denotes.
\<close>

definition gpsFound :: "jsstring \<Rightarrow> (number \<times> number) option" where
  "gpsFound cleanLine =
     (case (rx_match True lat_rx cleanLine, rx_match True lng_rx cleanLine) of
        (Some (a # _), Some (b # _)) \<Rightarrow> Some (parseFloat a, parseFloat b)
      | _ \<Rightarrow>
        (case rx_match False commaGps_rx cleanLine of
           Some (g1 # g2 # _) \<Rightarrow> Some (parseFloat g1, parseFloat g2)
         | _ \<Rightarrow> None))"

definition epsilon :: number where
  "epsilon = toDouble 1 10000"

definition hasFix :: "number \<Rightarrow> number \<Rightarrow> bool" where
  "hasFix la lo \<longleftrightarrow> num_gt (num_abs la) epsilon \<or> num_gt (num_abs lo) epsilon"

definition gpsPart :: "jsstring \<Rightarrow> number \<Rightarrow> BikeState \<Rightarrow> BikeState" where
  "gpsPart cleanLine tG prev =
     (case gpsFound cleanLine of
        Some (la, lo) \<Rightarrow> gpsUpdate la lo (hasFix la lo) tG prev
      | None \<Rightarrow> prev)"

definition processLine :: "jsstring \<Rightarrow> number \<Rightarrow> number \<Rightarrow> BikeState \<Rightarrow> BikeState" where
  "processLine line tS tG prev =
     (let cleanLine = trim line
      in if cleanLine = [] then prev
         else gpsPart cleanLine tG (sensorPart cleanLine tS prev))"

text \<open>
  The callers of \<^verbatim>\<open>processLine\<close> that log: the serial reader, for each line split off
  the buffer, and the Bluetooth notification handler.
\<close>

definition serial_onLine ::
  "jsstring \<Rightarrow> number \<Rightarrow> number \<Rightarrow> BikeState \<times> jsstring list \<Rightarrow> BikeState \<times> jsstring list" where
  "serial_onLine line tS tG st =
     (if trim line = [] then st
      else (processLine (trim line) tS tG (fst st),
            addLog_fuzzy (cu ''>> '' @ trim line) (snd st)))"

definition ble_onValue ::
  "jsstring \<Rightarrow> number \<Rightarrow> number \<Rightarrow> BikeState \<times> jsstring list \<Rightarrow> BikeState \<times> jsstring list" where
  "ble_onValue v tS tG st =
     (let line = trim v
      in (processLine line tS tG (fst st), addLog_fuzzy (cu ''BLE >> '' @ line) (snd st)))"

subsection \<open>Observations used by the claims\<close>

text \<open>
  \<open>sensorView\<close> is what the state holds for the three sensors: the readings under the keys
  1, 2 and 3 and the three danger flags. \<open>dangerFlag i\<close> is the flag of sensor \<open>i\<close>:
  left for 1, right for 2, back for 3.
\<close>

definition sensorView ::
  "BikeState \<Rightarrow> (SensorData option \<times> SensorData option \<times> SensorData option) \<times> bool \<times> bool \<times> bool" where
  "sensorView s =
     ((sensors s (Fin 1), sensors s (Fin 2), sensors s (Fin 3)),
      leftDanger s, rightDanger s, backDanger s)"

definition dangerFlag :: "number \<Rightarrow> BikeState \<Rightarrow> bool" where
  "dangerFlag i s =
     (if i = Fin 1 then leftDanger s else if i = Fin 2 then rightDanger s else backDanger s)"

text \<open>
  \<open>is_num_text s\<close>: \<open>s\<close> is a non-empty text of digits, points and minus signs, what the
  class \<^verbatim>\<open>[\d.-]+\<close> of the GPS patterns captures; a decimal number written without an
  exponent is such a text.
\<close>

definition is_num_text :: "jsstring \<Rightarrow> bool" where
  "is_num_text s \<longleftrightarrow> s \<noteq> [] \<and> list_all (in_cls (Either Digit (AnyOf ''.-''))) s"

subsection \<open>Facts about numbers\<close>

lemma num_cmp_Fin [simp]:
  "num_lt (Fin a) (Fin b) \<longleftrightarrow> a < b"
  "num_le (Fin a) (Fin b) \<longleftrightarrow> a \<le> b"
  "num_gt (Fin a) (Fin b) \<longleftrightarrow> b < a"
  "num_ge (Fin a) (Fin b) \<longleftrightarrow> b \<le> a"
  "strict_eq (Fin a) (Fin b) \<longleftrightarrow> a = b"
  by (simp_all add: num_lt_def num_le_def num_gt_def num_ge_def strict_eq_def)

lemma num_cmp_NaN [simp]:
  "\<not> num_lt NaN x" "\<not> num_lt x NaN" "\<not> num_gt NaN x" "\<not> num_gt x NaN"
  "\<not> num_le NaN x" "\<not> num_le x NaN" "\<not> num_ge NaN x" "\<not> num_ge x NaN"
  "\<not> strict_eq NaN x" "\<not> strict_eq x NaN"
  by (simp_all add: num_lt_def num_gt_def num_le_def num_ge_def strict_eq_def
      split: option.splits)

lemma strict_eq_nonzero: "q \<noteq> 0 \<Longrightarrow> strict_eq x (Fin q) \<longleftrightarrow> x = Fin q"
  by (cases x) (auto simp: strict_eq_def)

lemma prop_key_nonzero: "q \<noteq> 0 \<Longrightarrow> prop_key x = Fin q \<longleftrightarrow> x = Fin q"
  by (cases x) (auto simp: prop_key_def)

lemma num_le_0_not_gt: "num_le d (Fin 0) \<Longrightarrow> \<not> num_gt d (Fin 0)"
  by (cases d) (auto simp: num_le_def num_gt_def num_lt_def)

text \<open>
  \<^verbatim>\<open>parseInt\<close> returns a whole number when it returns a finite one, so the test
  \<^verbatim>\<open>id >= 1 && id <= 3\<close> holds for the ids 1, 2 and 3 only.
\<close>

lemma rhe_one: "rhe n (Suc 0) = n"
  by (simp add: rhe_def)

lemma toDouble_integral: "toDouble n 1 = PosInf \<or> (\<exists>k. toDouble n 1 = Fin (of_nat k))"
proof (cases "n = 0")
  case True
  then have "toDouble n 1 = Fin (of_nat 0)"
    by (simp add: toDouble_def)
  then show ?thesis by blast
next
  case False
  let ?u = "max (flog2 n 1 - 52) (- 1074)"
  show ?thesis
  proof (cases "0 \<le> ?u")
    case True
    with False have "toDouble n 1 = PosInf
        \<or> toDouble n 1 = Fin (of_nat (rhe n (1 * 2 ^ nat ?u) * 2 ^ nat ?u))"
      by (simp add: toDouble_def Let_def del: of_nat_mult of_nat_power)
    then show ?thesis by blast
  next
    case neg: False
    with False have "toDouble n 1 = Fin (of_nat n)"
      by (simp add: toDouble_def Let_def rhe_one)
    then show ?thesis by blast
  qed
qed

lemma signed_integral:
  assumes "x = PosInf \<or> (\<exists>k. x = Fin (of_nat k))"
  shows "signed neg x \<in> {PosInf, NegInf, NegZero} \<or> (\<exists>k. signed neg x = Fin (of_int k))"
proof -
  from assms consider "x = PosInf" | k where "x = Fin (of_nat k)"
    by blast
  then show ?thesis
  proof cases
    case 1
    then show ?thesis by (simp add: signed_def)
  next
    case 2
    show ?thesis
    proof (cases "neg \<and> k \<noteq> 0")
      case True
      with 2 have "signed neg x = Fin (of_int (- int k))"
        by (simp add: signed_def)
      then show ?thesis by blast
    next
      case False
      with 2 have "signed neg x = NegZero \<or> signed neg x = Fin (of_int (int k))"
        by (auto simp: signed_def)
      then show ?thesis by blast
    qed
  qed
qed

lemma parseInt_integral:
  "parseInt s \<in> {NaN, PosInf, NegInf, NegZero} \<or> (\<exists>k. parseInt s = Fin (of_int k))"
  using signed_integral [OF toDouble_integral]
  by (auto simp: parseInt_def Let_def split: prod.splits list.splits)

lemma id_guard:
  "num_ge (parseInt g) (Fin 1) \<and> num_le (parseInt g) (Fin 3)
   \<longleftrightarrow> parseInt g \<in> {Fin 1, Fin 2, Fin 3}"
proof -
  from parseInt_integral [of g]
  consider "parseInt g \<in> {NaN, PosInf, NegInf, NegZero}" | k where "parseInt g = Fin (of_int k)"
    by blast
  then show ?thesis
  proof cases
    case 1
    then show ?thesis
      by (auto simp: num_ge_def num_le_def)
  next
    case 2
    have "(1 \<le> k \<and> k \<le> 3) = (k = 1 \<or> k = 2 \<or> k = 3)"
      by auto
    moreover have "(of_int k = (1::rat)) = (k = 1)" "(of_int k = (2::rat)) = (k = 2)"
      "(of_int k = (3::rat)) = (k = 3)"
      by (simp_all add: of_int_eq_iff [of k 2, symmetric] of_int_eq_iff [of k 3, symmetric]
          del: of_int_eq_iff)
    ultimately show ?thesis
      using 2 by simp
  qed
qed

subsection \<open>Facts about the updates\<close>

lemma sensorUpdate_simps [simp]:
  "sensors (sensorUpdate i d now s) =
     (sensors s)(prop_key i \<mapsto> \<lparr>sid = i, distance = d, lastUpdate = now\<rparr>)"
  "leftDanger (sensorUpdate i d now s) = (if strict_eq i (Fin 1) then isDanger d else leftDanger s)"
  "rightDanger (sensorUpdate i d now s) = (if strict_eq i (Fin 2) then isDanger d else rightDanger s)"
  "backDanger (sensorUpdate i d now s) = (if strict_eq i (Fin 3) then isDanger d else backDanger s)"
  "gps (sensorUpdate i d now s) = gps s"
  "isConnected (sensorUpdate i d now s) = isConnected s"
  by (simp_all add: sensorUpdate_def)

lemma gpsUpdate_simps [simp]:
  "sensors (gpsUpdate la lo v now s) = sensors s"
  "leftDanger (gpsUpdate la lo v now s) = leftDanger s"
  "rightDanger (gpsUpdate la lo v now s) = rightDanger s"
  "backDanger (gpsUpdate la lo v now s) = backDanger s"
  "gps (gpsUpdate la lo v now s) = \<lparr>lat = la, lng = lo, valid = v, gpsLastUpdate = now\<rparr>"
  "isConnected (gpsUpdate la lo v now s) = isConnected s"
  by (simp_all add: gpsUpdate_def)

lemma gpsPart_frame [simp]:
  "sensors (gpsPart l t s) = sensors s"
  "leftDanger (gpsPart l t s) = leftDanger s"
  "rightDanger (gpsPart l t s) = rightDanger s"
  "backDanger (gpsPart l t s) = backDanger s"
  "isConnected (gpsPart l t s) = isConnected s"
  by (simp_all add: gpsPart_def split: option.splits prod.splits)

lemma sensorPart_frame [simp]:
  "gps (sensorPart l t s) = gps s"
  "isConnected (sensorPart l t s) = isConnected s"
  by (simp_all add: sensorPart_def Let_def split: option.splits list.splits)

subsection \<open>Evaluation\<close>

text \<open>
  No pattern matches the empty string. \<open>str_eval\<close> and \<open>num_eval\<close> are the equations that
  evaluate the matcher and the number parsers on a literal.
\<close>

lemma rx_match_Nil [simp]:
  "rx_match False sensor_strict_rx [] = None"
  "rx_match False gps_strict_rx [] = None"
  "rx_match True sensor_rx [] = None"
  "rx_match True lat_rx [] = None"
  "rx_match True lng_rx [] = None"
  "rx_match False commaGps_rx [] = None"
  by (simp_all add: sensor_strict_rx_def gps_strict_rx_def sensor_rx_def lat_rx_def lng_rx_def
      commaGps_rx_def cu_def rx_match.simps)

lemma gpsFound_Nil [simp]: "gpsFound [] = None"
  by (simp add: gpsFound_def)

lemmas str_eval = cu_def is_ws_def is_digit_def ch_eq_def canon_def rx_match.simps
lemmas num_eval = split_sign_def digits_val_def digit_val_def exponent_part_def signed_def
  toDouble_def flog2_def rhe_def Let_def

lemma bits_0 [simp]: "bits 0 = 0"
  by (simp add: bits.simps)
lemma bits_1 [simp]: "bits 1 = 1"
  by (simp add: bits.simps)
lemma bits_Suc_0 [simp]: "bits (Suc 0) = 1"
  by (simp add: bits.simps)
lemma bits_numeral [simp]: "bits (numeral k) = Suc (bits (numeral k div 2))"
  by (subst bits.simps) simp

lemmas rx_defs = sensor_strict_rx_def gps_strict_rx_def sensor_rx_def lat_rx_def lng_rx_def
  commaGps_rx_def

lemma parse_literals:
  "parseInt (cu ''1'') = Fin 1"
  "parseInt (cu ''7'') = Fin 7"
  "parseFloat (cu ''42.50'') = Fin (85 / 2)"
  "parseFloat (cu ''0'') = Fin 0"
  "parseFloat (cu ''.'') = NaN"
  "parseFloat (cu ''34.05'') = Fin (2396055739249459 / 2 ^ 46)"
  "parseFloat (cu ''-118.24'') = Fin (- (8320400311566991 / 2 ^ 46))"
  "parseFloat (cu ''0.00001'') = Fin (5902958103587057 / 2 ^ 69)"
  by (simp_all add: parseInt_def parseFloat_def str_eval num_eval)

lemma epsilon_value: "epsilon = Fin (7378697629483821 / 2 ^ 66)"
  by (simp add: epsilon_def num_eval)

text \<open>The canonical strict sensor line.\<close>

lemma canonical_trim:
  "trim (cu ''ID 1: Distance = 42.50 cm'') = cu ''ID 1: Distance = 42.50 cm''"
  by (simp add: trim_def str_eval)

lemma canonical_strict:
  "rx_match False sensor_strict_rx (cu ''ID 1: Distance = 42.50 cm'')
     = Some [cu ''1'', cu ''42.50'']"
  "rx_match False gps_strict_rx (cu ''ID 1: Distance = 42.50 cm'') = None"
  by (simp_all add: rx_defs str_eval)

lemma canonical_fuzzy:
  "rx_match True sensor_rx (cu ''ID 1: Distance = 42.50 cm'') = None"
  "rx_match True lat_rx (cu ''ID 1: Distance = 42.50 cm'') = None"
  "rx_match True lng_rx (cu ''ID 1: Distance = 42.50 cm'') = None"
  "rx_match False commaGps_rx (cu ''ID 1: Distance = 42.50 cm'') = None"
  by (simp_all add: rx_defs str_eval)

lemma cu_not_Nil [simp]: "cu s = [] \<longleftrightarrow> s = []"
  by (simp add: cu_def)

lemma handleData_canonical_line:
  "handleData (Some (cu ''ID 1: Distance = 42.50 cm'')) tS tG (s, logs)
     = (s\<lparr>sensors := (sensors s)(Fin 1 \<mapsto> \<lparr>sid = Fin 1, distance = Fin (85 / 2), lastUpdate = tS\<rparr>),
          leftDanger := True\<rparr>,
        addLog_strict (cu ''ID 1: Distance = 42.50 cm'') logs)"
  by (simp add: handleData_def canonical_trim canonical_strict parse_literals sensorUpdate_def
      prop_key_def isDanger_def)

text \<open>A line no pattern matches.\<close>

lemma hello_trim: "trim (cu ''hello'') = cu ''hello''"
  by (simp add: trim_def str_eval)

lemma hello_no_match:
  "rx_match False sensor_strict_rx (cu ''hello'') = None"
  "rx_match False gps_strict_rx (cu ''hello'') = None"
  "rx_match True sensor_rx (cu ''hello'') = None"
  "rx_match True lat_rx (cu ''hello'') = None"
  "rx_match True lng_rx (cu ''hello'') = None"
  "rx_match False commaGps_rx (cu ''hello'') = None"
  by (simp_all add: sensor_strict_rx_def gps_strict_rx_def sensor_rx_def lat_rx_def lng_rx_def
      commaGps_rx_def str_eval)

text \<open>Sensor lines for sensor 1 and for the id 7.\<close>

lemma zero_line:
  "trim (cu ''ID 1: Distance = 0 cm'') = cu ''ID 1: Distance = 0 cm''"
  "rx_match False sensor_strict_rx (cu ''ID 1: Distance = 0 cm'') = Some [cu ''1'', cu ''0'']"
  by (simp_all add: trim_def rx_defs str_eval)

lemma short_line:
  "trim (cu ''S1: 42.50'') = cu ''S1: 42.50''"
  "rx_match True sensor_rx (cu ''S1: 42.50'') = Some [cu ''1'', cu ''42.50'']"
  by (simp_all add: trim_def rx_defs str_eval)

lemma seven_lines:
  "trim (cu ''ID 7: Distance = 42.50 cm'') = cu ''ID 7: Distance = 42.50 cm''"
  "rx_match False sensor_strict_rx (cu ''ID 7: Distance = 42.50 cm'')
     = Some [cu ''7'', cu ''42.50'']"
  "trim (cu ''S7: 42.50'') = cu ''S7: 42.50''"
  "rx_match True sensor_rx (cu ''S7: 42.50'') = Some [cu ''7'', cu ''42.50'']"
  "rx_match False gps_strict_rx (cu ''ID 7: Distance = 42.50 cm'') = None"
  by (simp_all add: trim_def rx_defs str_eval)

text \<open>GPS lines.\<close>

lemma tiny_line:
  "trim (cu ''Lat: 0.00001 Lng: 0.00001'') = cu ''Lat: 0.00001 Lng: 0.00001''"
  "rx_match False sensor_strict_rx (cu ''Lat: 0.00001 Lng: 0.00001'') = None"
  "rx_match False gps_strict_rx (cu ''Lat: 0.00001 Lng: 0.00001'')
     = Some [cu ''0.00001'', cu ''0.00001'']"
  "rx_match True sensor_rx (cu ''Lat: 0.00001 Lng: 0.00001'') = None"
  "rx_match True lat_rx (cu ''Lat: 0.00001 Lng: 0.00001'') = Some [cu ''0.00001'']"
  "rx_match True lng_rx (cu ''Lat: 0.00001 Lng: 0.00001'') = Some [cu ''0.00001'']"
  by (simp_all add: trim_def rx_defs str_eval)

lemma labelled_line:
  "trim (cu ''Lat: 34.05 Lng: -118.24'') = cu ''Lat: 34.05 Lng: -118.24''"
  "rx_match False sensor_strict_rx (cu ''Lat: 34.05 Lng: -118.24'') = None"
  "rx_match False gps_strict_rx (cu ''Lat: 34.05 Lng: -118.24'')
     = Some [cu ''34.05'', cu ''-118.24'']"
  "rx_match True sensor_rx (cu ''Lat: 34.05 Lng: -118.24'') = None"
  "rx_match True lat_rx (cu ''Lat: 34.05 Lng: -118.24'') = Some [cu ''34.05'']"
  "rx_match True lng_rx (cu ''Lat: 34.05 Lng: -118.24'') = Some [cu ''-118.24'']"
  by (simp_all add: trim_def rx_defs str_eval)

lemma csv_line:
  "trim (cu ''34.05,-118.24'') = cu ''34.05,-118.24''"
  "rx_match False sensor_strict_rx (cu ''34.05,-118.24'') = None"
  "rx_match False gps_strict_rx (cu ''34.05,-118.24'') = None"
  "rx_match True sensor_rx (cu ''34.05,-118.24'') = None"
  "rx_match True lat_rx (cu ''34.05,-118.24'') = None"
  "rx_match True lng_rx (cu ''34.05,-118.24'') = None"
  "rx_match False commaGps_rx (cu ''34.05,-118.24'') = Some [cu ''34.05'', cu ''-118.24'']"
  by (simp_all add: trim_def rx_defs str_eval)

lemma processLine_gps:
  assumes "gpsFound (trim line) = Some (la, lo)"
  shows "gps (processLine line tS tG s)
           = \<lparr>lat = la, lng = lo, valid = hasFix la lo, gpsLastUpdate = tG\<rparr>"
proof -
  from assms have "trim line \<noteq> []" by auto
  with assms show ?thesis
    by (simp add: processLine_def gpsPart_def)
qed

lemma handleData_gps:
  assumes "rx_match False gps_strict_rx (trim raw) = Some (ga # gb # gs)"
  shows "gps (fst (handleData (Some raw) tS tG (s, logs)))
           = \<lparr>lat = parseFloat ga, lng = parseFloat gb, valid = True, gpsLastUpdate = tG\<rparr>"
proof -
  from assms have "trim raw \<noteq> []" by auto
  with assms show ?thesis
    by (simp add: handleData_def Let_def split: option.splits list.splits)
qed

text \<open>Lines with a capture that is no number.\<close>

lemma dot_lines:
  "trim (cu ''S1: . Lat: 34.05 Lng: -118.24'') = cu ''S1: . Lat: 34.05 Lng: -118.24''"
  "rx_match True sensor_rx (cu ''S1: . Lat: 34.05 Lng: -118.24'') = Some [cu ''1'', cu ''.'']"
  "rx_match True lat_rx (cu ''S1: . Lat: 34.05 Lng: -118.24'') = Some [cu ''34.05'']"
  "rx_match True lng_rx (cu ''S1: . Lat: 34.05 Lng: -118.24'') = Some [cu ''-118.24'']"
  "trim (cu ''ID 1: Distance = . cm Lat: 34.05 Lng: -118.24'')
     = cu ''ID 1: Distance = . cm Lat: 34.05 Lng: -118.24''"
  "rx_match False sensor_strict_rx (cu ''ID 1: Distance = . cm Lat: 34.05 Lng: -118.24'')
     = Some [cu ''1'', cu ''.'']"
  "rx_match False gps_strict_rx (cu ''ID 1: Distance = . cm Lat: 34.05 Lng: -118.24'')
     = Some [cu ''34.05'', cu ''-118.24'']"
  by (simp_all add: trim_def rx_defs str_eval)

lemma dash_line:
  "trim (cu ''Lat: - Lng: 5'') = cu ''Lat: - Lng: 5''"
  "rx_match True lat_rx (cu ''Lat: - Lng: 5'') = Some [cu ''-'']"
  "rx_match True lng_rx (cu ''Lat: - Lng: 5'') = Some [cu ''5'']"
  "rx_match False gps_strict_rx (cu ''Lat: - Lng: 5'') = Some [cu ''-'', cu ''5'']"
  by (simp_all add: trim_def rx_defs str_eval)

lemma parse_dash:
  "parseFloat (cu ''-'') = NaN"
  "parseFloat (cu ''5'') = Fin 5"
  "parseFloat (cu ''1'') = Fin 1"
  by (simp_all add: parseFloat_def str_eval num_eval)

subsection \<open>Facts about the log\<close>

lemma take_append_take: "take n (xs @ take n ys) = take n (xs @ ys)"
  by (simp add: min_def)

lemma addLog_strict_fold:
  "foldl (\<lambda>l m. addLog_strict m l) (take 10 l) ms = take 10 (rev ms @ l)"
proof (induction ms arbitrary: l)
  case Nil
  show ?case by simp
next
  case (Cons m ms)
  have "foldl (\<lambda>l m. addLog_strict m l) (take 10 l) (m # ms)
          = foldl (\<lambda>l m. addLog_strict m l) (take 10 (m # take 10 l)) ms"
    by (simp add: addLog_strict_def)
  also have "\<dots> = take 10 (rev ms @ m # take 10 l)"
    by (rule Cons.IH)
  also have "\<dots> = take 10 (rev ms @ m # l)"
    using take_append_take [of 10 "rev ms @ [m]" l] by simp
  finally show ?case by simp
qed

lemma addLog_fuzzy_fold:
  "foldl (\<lambda>l m. addLog_fuzzy m l) (take 50 l) ms = take 50 (rev ms @ l)"
proof (induction ms arbitrary: l)
  case Nil
  show ?case by simp
next
  case (Cons m ms)
  have "foldl (\<lambda>l m. addLog_fuzzy m l) (take 50 l) (m # ms)
          = foldl (\<lambda>l m. addLog_fuzzy m l) (take 50 (m # take 50 l)) ms"
    by (simp add: addLog_fuzzy_def)
  also have "\<dots> = take 50 (rev ms @ m # take 50 l)"
    by (rule Cons.IH)
  also have "\<dots> = take 50 (rev ms @ m # l)"
    using take_append_take [of 50 "rev ms @ [m]" l] by simp
  finally show ?case by simp
qed

subsection \<open>Facts about the matcher\<close>

lemma num_char:
  assumes "in_cls (Either Digit (AnyOf ''.-'')) c"
  shows "\<not> is_ws c" "\<not> in_cls (Either (AnyOf '':'') (Either Space (AnyOf ''=''))) c"
    "canon c = c" "c \<noteq> 73" "c \<noteq> 83" "c \<noteq> 76" "c \<noteq> 71"
  using assms by (auto simp: is_digit_def is_ws_def cu_def canon_def)

lemma trim_id: "s \<noteq> [] \<Longrightarrow> \<not> is_ws (hd s) \<Longrightarrow> \<not> is_ws (last s) \<Longrightarrow> trim s = s"
proof -
  assume s: "s \<noteq> []" and h: "\<not> is_ws (hd s)" and l: "\<not> is_ws (last s)"
  from s h have "dropWhile is_ws s = s"
    by (cases s) simp_all
  moreover from s l have "dropWhile is_ws (rev s) = rev s"
    by (cases "rev s") (simp_all add: last_rev [symmetric] del: last_rev)
  ultimately show ?thesis
    by (simp add: trim_def)
qed

lemma rx_match_Cons_None:
  "run ci r (c # s) [] [] = None \<Longrightarrow> rx_match ci r (c # s) = rx_match ci r s"
  by (simp add: rx_match.simps)

lemma rx_match_skip:
  "(\<And>c t. c \<in> set xs \<Longrightarrow> run ci r (c # t) [] [] = None)
   \<Longrightarrow> rx_match ci r (xs @ ys) = rx_match ci r ys"
  by (induction xs) (simp_all add: rx_match_Cons_None)

lemma run_Rep_greedy:
  assumes "n \<le> length (takeWhile (in_cls k) s)"
    and "run ci r (dropWhile (in_cls k) s) opn caps = Some y"
  shows "run ci (Rep k n # r) s opn caps = Some y"
proof -
  let ?m = "length (takeWhile (in_cls k) s)"
  have "rev [n ..< Suc ?m] = ?m # rev [n ..< ?m]"
    using assms(1) by simp
  moreover have "drop ?m s = dropWhile (in_cls k) s"
    by (rule dropWhile_eq_drop [symmetric])
  ultimately show ?thesis
    using assms(2) by simp
qed


lemma run_capture_tail:
  assumes "is_num_text a" and "rest = [] \<or> \<not> in_cls (Either Digit (AnyOf ''.-'')) (hd rest)"
  shows "run True [Rep (Either (AnyOf '':'') (Either Space (AnyOf ''=''))) 1, GOpen,
                   Rep (Either Digit (AnyOf ''.-'')) 1, GClose]
           (58 # 32 # a @ rest) [] [] = Some [a]"
proof -
  let ?P = "in_cls (Either Digit (AnyOf ''.-''))"
  let ?Q = "in_cls (Either (AnyOf '':'') (Either Space (AnyOf ''='')))"
  from assms(1) have ne: "a \<noteq> []" and all: "\<And>c. c \<in> set a \<Longrightarrow> ?P c"
    by (simp_all add: is_num_text_def list_all_iff)
  from assms(2) have rest: "takeWhile ?P rest = []" "dropWhile ?P rest = rest"
    by (cases rest; simp)+
  have tw: "takeWhile ?P (a @ rest) = a" and dw: "dropWhile ?P (a @ rest) = rest"
    using all rest by simp_all
  from ne obtain x a' where a: "a = x # a'"
    by (cases a) auto
  with all have "?P x"
    by simp
  then have nQ: "\<not> ?Q x"
    by (rule num_char(2))
  have Q58: "?Q 58" and Q32: "?Q 32"
    by (simp_all add: cu_def is_ws_def)
  have twQ: "takeWhile ?Q (58 # 32 # a @ rest) = [58, 32]"
    and dwQ: "dropWhile ?Q (58 # 32 # a @ rest) = a @ rest"
    using nQ Q58 Q32 by (simp_all only: a takeWhile.simps dropWhile.simps append_Cons if_True if_False)
  have "run True [Rep (Either Digit (AnyOf ''.-'')) 1, GClose] (a @ rest) [a @ rest] []
          = Some [a]"
  proof (rule run_Rep_greedy)
    show "1 \<le> length (takeWhile ?P (a @ rest))"
      by (simp only: tw) (simp add: a)
    show "run True [GClose] (dropWhile ?P (a @ rest)) [a @ rest] [] = Some [a]"
      by (simp add: dw)
  qed
  then have inner: "run True [GOpen, Rep (Either Digit (AnyOf ''.-'')) 1, GClose] (a @ rest) [] []
                      = Some [a]"
    by (simp del: run.simps(4))
  show ?thesis
  proof (rule run_Rep_greedy)
    show "1 \<le> length (takeWhile ?Q (58 # 32 # a @ rest))"
      by (simp only: twQ) simp
    show "run True [GOpen, Rep (Either Digit (AnyOf ''.-'')) 1, GClose]
            (dropWhile ?Q (58 # 32 # a @ rest)) [] [] = Some [a]"
      by (simp only: dwQ inner)
  qed
qed

lemma run_lat_label:
  assumes "is_num_text a" and "rest = [] \<or> \<not> in_cls (Either Digit (AnyOf ''.-'')) (hd rest)"
  shows "run True lat_rx (cu ''Lat: '' @ a @ rest) [] [] = Some [a]"
  using run_capture_tail [OF assms]
  by (simp add: lat_rx_def cu_def ch_eq_def canon_def del: run.simps(4))

lemma run_lng_label:
  assumes "is_num_text b" and "rest = [] \<or> \<not> in_cls (Either Digit (AnyOf ''.-'')) (hd rest)"
  shows "run True lng_rx (cu ''Lng: '' @ b @ rest) [] [] = Some [b]"
  using run_capture_tail [OF assms]
  by (simp add: lng_rx_def cu_def ch_eq_def canon_def del: run.simps(4))

text \<open>A start position whose first character begins no alternative fails.\<close>

lemma run_sensor_first:
  "canon c \<noteq> 73 \<Longrightarrow> canon c \<noteq> 83 \<Longrightarrow> run True sensor_rx (c # t) opn caps = None"
  by (simp add: sensor_rx_def cu_def ch_eq_def canon_def [of 73] canon_def [of 83] del: run.simps(4))

lemma run_lat_first:
  "canon c \<noteq> 76 \<Longrightarrow> canon c \<noteq> 71 \<Longrightarrow> run True lat_rx (c # t) opn caps = None"
  by (simp add: lat_rx_def cu_def ch_eq_def canon_def [of 76] canon_def [of 71] del: run.simps(4))

lemma run_lng_first:
  "canon c \<noteq> 76 \<Longrightarrow> run True lng_rx (c # t) opn caps = None"
  by (simp add: lng_rx_def cu_def ch_eq_def canon_def [of 76] del: run.simps(4))

lemma run_lat_gc: "run True lat_rx (103 # 58 # t) opn caps = None"
  by (simp add: lat_rx_def cu_def ch_eq_def canon_def del: run.simps(4))

lemma canon_vals:
  "canon 97 = 65" "canon 116 = 84" "canon 58 = 58" "canon 32 = 32" "canon 110 = 78"
  by (simp_all add: canon_def)

lemma run_lat_Ln: "run True lat_rx (76 # 110 # t) opn caps = None"
  by (simp add: lat_rx_def cu_def ch_eq_def canon_def del: run.simps(4))

lemma run_lng_La: "run True lng_rx (76 # 97 # t) opn caps = None"
  by (simp add: lng_rx_def cu_def ch_eq_def canon_def del: run.simps(4))


lemma rx_match_head:
  "s \<noteq> [] \<Longrightarrow> run ci r s [] [] = Some y \<Longrightarrow> rx_match ci r s = Some y"
  by (cases s) (simp_all add: rx_match.simps)

lemma num_text_chars:
  assumes "is_num_text a" and "c \<in> set a"
  shows "canon c \<noteq> 73" "canon c \<noteq> 83" "canon c \<noteq> 76" "canon c \<noteq> 71" "\<not> is_ws c"
  using assms num_char [of c] by (simp_all add: is_num_text_def list_all_iff)

lemma num_text_last: "is_num_text a \<Longrightarrow> \<not> is_ws (last (xs @ a))"
  using num_text_chars(5) [of a "last a"] by (simp add: is_num_text_def)

lemma label_chars:
  "c \<in> set (cu ''Lat: '') \<Longrightarrow> canon c \<noteq> 73 \<and> canon c \<noteq> 83"
  "c \<in> set (cu '' Lat: '') \<Longrightarrow> canon c \<noteq> 73 \<and> canon c \<noteq> 83"
  "c \<in> set (cu ''Lng: '') \<Longrightarrow> canon c \<noteq> 73 \<and> canon c \<noteq> 83"
  "c \<in> set (cu '' Lng: '') \<Longrightarrow> canon c \<noteq> 73 \<and> canon c \<noteq> 83"
  by (auto simp: cu_def canon_def)

text \<open>The two label orders: what the three patterns of the fuzzy variant find.\<close>

lemma lat_first_line:
  assumes "is_num_text a" and "is_num_text b"
  shows "trim (cu ''Lat: '' @ a @ cu '' Lng: '' @ b) = cu ''Lat: '' @ a @ cu '' Lng: '' @ b"
    and "rx_match True sensor_rx (cu ''Lat: '' @ a @ cu '' Lng: '' @ b) = None"
    and "rx_match True lat_rx (cu ''Lat: '' @ a @ cu '' Lng: '' @ b) = Some [a]"
    and "rx_match True lng_rx (cu ''Lat: '' @ a @ cu '' Lng: '' @ b) = Some [b]"
proof -
  let ?line = "cu ''Lat: '' @ a @ cu '' Lng: '' @ b"
  have "\<not> is_ws (last ?line)"
    using num_text_last [OF assms(2), of "cu ''Lat: '' @ a @ cu '' Lng: ''"] by simp
  then show "trim ?line = ?line"
    by (intro trim_id) (simp_all add: cu_def is_ws_def)
  have "rx_match True sensor_rx (?line @ []) = rx_match True sensor_rx []"
  proof (rule rx_match_skip)
    fix c t assume "c \<in> set ?line"
    then have "canon c \<noteq> 73 \<and> canon c \<noteq> 83"
      using num_text_chars(1,2) [OF assms(1)] num_text_chars(1,2) [OF assms(2)] label_chars
      by auto
    then show "run True sensor_rx (c # t) [] [] = None"
      by (simp add: run_sensor_first)
  qed
  then show "rx_match True sensor_rx ?line = None"
    by simp
  have "run True lat_rx (cu ''Lat: '' @ a @ (cu '' Lng: '' @ b)) [] [] = Some [a]"
    by (rule run_lat_label [OF assms(1)]) (simp add: cu_def is_digit_def)
  then show "rx_match True lat_rx ?line = Some [a]"
    by (intro rx_match_head) (simp_all add: cu_def)
  have skip: "rx_match True lng_rx ((97 # 116 # 58 # 32 # a @ [32]) @ (cu ''Lng: '' @ b @ []))
                = rx_match True lng_rx (cu ''Lng: '' @ b @ [])"
  proof (rule rx_match_skip)
    fix c t assume "c \<in> set (97 # 116 # 58 # 32 # a @ [32])"
    then have "canon c \<noteq> 76"
      using num_text_chars(3) [OF assms(1)] by (auto simp: canon_vals)
    then show "run True lng_rx (c # t) [] [] = None"
      by (rule run_lng_first)
  qed
  have "run True lng_rx (cu ''Lng: '' @ b @ []) [] [] = Some [b]"
    by (rule run_lng_label [OF assms(2)]) simp
  then have "rx_match True lng_rx (cu ''Lng: '' @ b @ []) = Some [b]"
    by (intro rx_match_head) (simp_all add: cu_def)
  with skip have "rx_match True lng_rx (97 # 116 # 58 # 32 # a @ 32 # cu ''Lng: '' @ b) = Some [b]"
    by simp
  then have "rx_match True lng_rx (76 # 97 # 116 # 58 # 32 # a @ 32 # cu ''Lng: '' @ b) = Some [b]"
    by (simp only: rx_match_Cons_None [OF run_lng_La])
  moreover have "?line = 76 # 97 # 116 # 58 # 32 # a @ 32 # cu ''Lng: '' @ b"
    by (simp add: cu_def)
  ultimately show "rx_match True lng_rx ?line = Some [b]"
    by (simp only:)
qed

lemma lng_first_line:
  assumes "is_num_text a" and "is_num_text b"
  shows "trim (cu ''Lng: '' @ b @ cu '' Lat: '' @ a) = cu ''Lng: '' @ b @ cu '' Lat: '' @ a"
    and "rx_match True sensor_rx (cu ''Lng: '' @ b @ cu '' Lat: '' @ a) = None"
    and "rx_match True lat_rx (cu ''Lng: '' @ b @ cu '' Lat: '' @ a) = Some [a]"
    and "rx_match True lng_rx (cu ''Lng: '' @ b @ cu '' Lat: '' @ a) = Some [b]"
proof -
  let ?line = "cu ''Lng: '' @ b @ cu '' Lat: '' @ a"
  have "\<not> is_ws (last ?line)"
    using num_text_last [OF assms(1), of "cu ''Lng: '' @ b @ cu '' Lat: ''"] by simp
  then show "trim ?line = ?line"
    by (intro trim_id) (simp_all add: cu_def is_ws_def)
  have "rx_match True sensor_rx (?line @ []) = rx_match True sensor_rx []"
  proof (rule rx_match_skip)
    fix c t assume "c \<in> set ?line"
    then have "canon c \<noteq> 73 \<and> canon c \<noteq> 83"
      using num_text_chars(1,2) [OF assms(1)] num_text_chars(1,2) [OF assms(2)] label_chars
      by auto
    then show "run True sensor_rx (c # t) [] [] = None"
      by (simp add: run_sensor_first)
  qed
  then show "rx_match True sensor_rx ?line = None"
    by simp
  have "run True lng_rx (cu ''Lng: '' @ b @ (cu '' Lat: '' @ a)) [] [] = Some [b]"
    by (rule run_lng_label [OF assms(2)]) (simp add: cu_def is_digit_def)
  then show "rx_match True lng_rx ?line = Some [b]"
    by (intro rx_match_head) (simp_all add: cu_def)
  have skip: "rx_match True lat_rx ((58 # 32 # b @ [32]) @ (cu ''Lat: '' @ a @ []))
                = rx_match True lat_rx (cu ''Lat: '' @ a @ [])"
  proof (rule rx_match_skip)
    fix c t assume "c \<in> set (58 # 32 # b @ [32])"
    then have "canon c \<noteq> 76 \<and> canon c \<noteq> 71"
      using num_text_chars(3,4) [OF assms(2)] by (auto simp: canon_vals)
    then show "run True lat_rx (c # t) [] [] = None"
      by (simp add: run_lat_first)
  qed
  have "run True lat_rx (cu ''Lat: '' @ a @ []) [] [] = Some [a]"
    by (rule run_lat_label [OF assms(1)]) simp
  then have "rx_match True lat_rx (cu ''Lat: '' @ a @ []) = Some [a]"
    by (intro rx_match_head) (simp_all add: cu_def)
  with skip have "rx_match True lat_rx (58 # 32 # b @ 32 # cu ''Lat: '' @ a) = Some [a]"
    by simp
  moreover have n: "run True lat_rx (110 # 103 # 58 # 32 # b @ 32 # cu ''Lat: '' @ a) [] [] = None"
    by (rule run_lat_first) (simp_all add: canon_vals)
  ultimately have "rx_match True lat_rx (76 # 110 # 103 # 58 # 32 # b @ 32 # cu ''Lat: '' @ a)
                     = Some [a]"
    by (simp only: rx_match_Cons_None [OF run_lat_Ln] rx_match_Cons_None [OF n]
        rx_match_Cons_None [OF run_lat_gc])
  moreover have "?line = 76 # 110 # 103 # 58 # 32 # b @ 32 # cu ''Lat: '' @ a"
    by (simp add: cu_def)
  ultimately show "rx_match True lat_rx ?line = Some [a]"
    by (simp only:)
qed

lemma parse_more:
  "parseFloat (cu ''34.0522'') = Fin (1198105275243325 / 2 ^ 45)"
  "parseFloat (cu ''-118.2437'') = Fin (- (8320660675920449 / 2 ^ 46))"
  by (simp_all add: parseFloat_def str_eval num_eval)

text \<open>Lines with a float in exponent notation.\<close>

lemma exponent_lines:
  "trim (cu ''Lng: 5 Lat: 1e-7'') = cu ''Lng: 5 Lat: 1e-7''"
  "rx_match True lat_rx (cu ''Lng: 5 Lat: 1e-7'') = Some [cu ''1'']"
  "rx_match True lng_rx (cu ''Lng: 5 Lat: 1e-7'') = Some [cu ''5'']"
  "trim (cu ''Lat: 1e-7 Lng: 5'') = cu ''Lat: 1e-7 Lng: 5''"
  "rx_match True lat_rx (cu ''Lat: 1e-7 Lng: 5'') = Some [cu ''1'']"
  "rx_match True lng_rx (cu ''Lat: 1e-7 Lng: 5'') = Some [cu ''5'']"
  by (simp_all add: trim_def rx_defs str_eval)

lemma parse_exponent: "parseFloat (cu ''1e-7'') = Fin (944473296573929 / 2 ^ 73)"
  by (simp add: parseFloat_def str_eval num_eval)

section \<open>The claims\<close>

text \<open>
  Claim C10: for every input line and previous state, the interpreter leaves the
  \<^verbatim>\<open>isConnected\<close> flag as it was. This holds for \<^verbatim>\<open>handleData\<close> of the strict variant,
  for \<^verbatim>\<open>processLine\<close> of the fuzzy variant and for the two callers that log.
\<close>

theorem C10_isConnected_unchanged:
  "isConnected (fst (handleData v tS tG (s, logs))) = isConnected s
   \<and> isConnected (processLine line tS tG s) = isConnected s
   \<and> isConnected (fst (serial_onLine line tS tG (s, logs))) = isConnected s
   \<and> isConnected (fst (ble_onValue line tS tG (s, logs))) = isConnected s"
proof -
  have p: "isConnected (processLine l tS tG s) = isConnected s" for l
    by (simp add: processLine_def Let_def)
  have h: "isConnected (fst (handleData v tS tG (s, logs))) = isConnected s"
    by (simp add: handleData_def Let_def split: option.splits list.splits)
  show ?thesis
    using p h by (simp add: serial_onLine_def ble_onValue_def Let_def)
qed

text \<open>
  The line the simulator of the fuzzy variant generates, \<^verbatim>\<open>ID 1: 42.50 cm\<close>, is
  recognised by \<^verbatim>\<open>processLine\<close>.
\<close>

lemma simulator_line:
  "trim (cu ''ID 1: 42.50 cm'') = cu ''ID 1: 42.50 cm''"
  "rx_match True sensor_rx (cu ''ID 1: 42.50 cm'') = Some [cu ''1'', cu ''42.50'']"
  "rx_match True lat_rx (cu ''ID 1: 42.50 cm'') = None"
  "rx_match False commaGps_rx (cu ''ID 1: 42.50 cm'') = None"
  by (simp_all add: trim_def rx_defs str_eval)

lemma processLine_simulator_line:
  "processLine (cu ''ID 1: 42.50 cm'') tS tG s
     = s\<lparr>sensors := (sensors s)(Fin 1 \<mapsto> \<lparr>sid = Fin 1, distance = Fin (85 / 2), lastUpdate = tS\<rparr>),
          leftDanger := True\<rparr>"
  by (simp add: processLine_def sensorPart_def gpsPart_def gpsFound_def simulator_line
      parse_literals sensorUpdate_def prop_key_def isDanger_def Let_def)

text \<open>
  Claim C1: interpreting the canonical strict sensor line
  \<^verbatim>\<open>ID 1: Distance = 42.50 cm\<close> stores the reading \<open>{id 1, distance 42.5, lastUpdate t}\<close>
  for sensor 1 and sets \<^verbatim>\<open>leftDanger\<close>. The strict variant does so
  (\<open>handleData_canonical_line\<close>). The fuzzy pattern wants the number right after the
  separators that follow the id, as in \<^verbatim>\<open>ID 1: 42.50 cm\<close>
  (\<open>processLine_simulator_line\<close>), so \<^verbatim>\<open>processLine\<close> does not recognise the
  canonical line and returns the state it was given.
\<close>

theorem C1_processLine_canonical_line:
  "processLine (cu ''ID 1: Distance = 42.50 cm'') tS tG s = s"
  by (simp add: processLine_def canonical_trim sensorPart_def gpsPart_def gpsFound_def
      canonical_fuzzy)

text \<open>
  Claim C6: a line that matches neither the sensor pattern nor a GPS pattern leaves the
  state as it was, field for field; in the strict variant the log entry is the only effect
  of a non-empty line. For the fuzzy variant the labelled GPS form matches when the latitude
  and the longitude pattern both do.
\<close>

theorem C6_no_match_no_change:
  "(rx_match False sensor_strict_rx (trim raw) = None
      \<and> rx_match False gps_strict_rx (trim raw) = None
    \<longrightarrow> handleData (Some raw) tS tG (s, logs)
          = (s, if trim raw = [] then logs else addLog_strict (trim raw) logs))
   \<and> (rx_match True sensor_rx (trim line) = None
      \<and> (rx_match True lat_rx (trim line) = None \<or> rx_match True lng_rx (trim line) = None)
      \<and> rx_match False commaGps_rx (trim line) = None
    \<longrightarrow> processLine line tS tG s = s)"
  by (auto simp: handleData_def processLine_def sensorPart_def gpsPart_def gpsFound_def Let_def
      split: option.splits list.splits)

theorem C6_witness:
  "rx_match False sensor_strict_rx (trim (cu ''hello'')) = None
   \<and> rx_match False gps_strict_rx (trim (cu ''hello'')) = None
   \<and> handleData (Some (cu ''hello'')) (Fin 5) (Fin 5) (initialState, [])
       = (initialState, [cu ''hello''])
   \<and> rx_match True sensor_rx (trim (cu ''hello'')) = None
   \<and> rx_match True lat_rx (trim (cu ''hello'')) = None
   \<and> rx_match False commaGps_rx (trim (cu ''hello'')) = None
   \<and> processLine (cu ''hello'') (Fin 5) (Fin 5) initialState = initialState"
  using C6_no_match_no_change [of "cu ''hello''" "Fin 5" "Fin 5" initialState "[]" "cu ''hello''"]
  by (simp add: hello_trim hello_no_match addLog_strict_def)

text \<open>
  Claim C5: when the sensor pattern matches with an id of 1, 2 or 3, the danger flag of
  that sensor becomes true exactly when \<open>0 < distance < 150\<close>, in both variants; a
  distance \<open>\<le> 0\<close> makes it false.
\<close>

theorem C5_danger_flag:
  assumes "parseInt gi = i" and "i \<in> {Fin 1, Fin 2, Fin 3}" and "parseFloat gd = d"
  shows "(rx_match False sensor_strict_rx (trim raw) = Some (gi # gd # gs)
           \<longrightarrow> dangerFlag i (fst (handleData (Some raw) tS tG (s, logs)))
                 = (num_gt d (Fin 0) \<and> num_lt d (Fin 150))
               \<and> (num_le d (Fin 0) \<longrightarrow> \<not> dangerFlag i (fst (handleData (Some raw) tS tG (s, logs)))))
       \<and> (rx_match True sensor_rx (trim line) = Some (gi # gd # gs)
           \<longrightarrow> dangerFlag i (processLine line tS tG s) = (num_gt d (Fin 0) \<and> num_lt d (Fin 150))
               \<and> (num_le d (Fin 0) \<longrightarrow> \<not> dangerFlag i (processLine line tS tG s)))"
proof -
  have strict: "dangerFlag i (fst (handleData (Some raw) tS tG (s, logs)))
                  = (num_gt d (Fin 0) \<and> num_lt d (Fin 150))"
    if "rx_match False sensor_strict_rx (trim raw) = Some (gi # gd # gs)"
  proof -
    from that have ne: "trim raw \<noteq> []" by auto
    show ?thesis
      using assms that ne
      by (auto simp: handleData_def Let_def dangerFlag_def isDanger_def
          split: option.splits list.splits)
  qed
  have fuzzy: "dangerFlag i (processLine line tS tG s) = (num_gt d (Fin 0) \<and> num_lt d (Fin 150))"
    if "rx_match True sensor_rx (trim line) = Some (gi # gd # gs)"
  proof -
    from that have ne: "trim line \<noteq> []" by auto
    show ?thesis
      using assms that ne
      by (auto simp: processLine_def sensorPart_def Let_def dangerFlag_def isDanger_def)
  qed
  show ?thesis
    using strict fuzzy num_le_0_not_gt [of d] by blast
qed

theorem C5_witness:
  "parseInt (cu ''1'') = Fin 1 \<and> parseFloat (cu ''42.50'') = Fin (85 / 2)
   \<and> rx_match False sensor_strict_rx (trim (cu ''ID 1: Distance = 42.50 cm''))
       = Some [cu ''1'', cu ''42.50'']
   \<and> dangerFlag (Fin 1)
        (fst (handleData (Some (cu ''ID 1: Distance = 42.50 cm'')) (Fin 5) (Fin 6)
               (initialState, [])))
   \<and> rx_match True sensor_rx (trim (cu ''S1: 42.50'')) = Some [cu ''1'', cu ''42.50'']
   \<and> dangerFlag (Fin 1) (processLine (cu ''S1: 42.50'') (Fin 5) (Fin 6) initialState)
   \<and> parseFloat (cu ''0'') = Fin 0 \<and> num_le (Fin 0) (Fin 0)
   \<and> rx_match False sensor_strict_rx (trim (cu ''ID 1: Distance = 0 cm''))
       = Some [cu ''1'', cu ''0'']
   \<and> \<not> dangerFlag (Fin 1)
        (fst (handleData (Some (cu ''ID 1: Distance = 0 cm'')) (Fin 5) (Fin 6)
               (initialState\<lparr>leftDanger := True\<rparr>, [])))"
  using C5_danger_flag [where gi = "cu ''1''" and i = "Fin 1" and gd = "cu ''42.50''"
      and d = "Fin (85 / 2)" and raw = "cu ''ID 1: Distance = 42.50 cm''" and gs = "[]"
      and line = "cu ''S1: 42.50''" and tS = "Fin 5" and tG = "Fin 6" and s = initialState
      and logs = "[]"]
    C5_danger_flag [where gi = "cu ''1''" and i = "Fin 1" and gd = "cu ''0''"
      and d = "Fin 0" and raw = "cu ''ID 1: Distance = 0 cm''" and gs = "[]"
      and line = "[]" and tS = "Fin 5" and tG = "Fin 6"
      and s = "initialState\<lparr>leftDanger := True\<rparr>" and logs = "[]"]
  by (simp add: parse_literals canonical_trim canonical_strict short_line zero_line)

text \<open>
  Claim C2, as stated: when the sensor pattern matches with an id outside \<open>{1, 2, 3}\<close>, the
  interpreter applies no update. The strict variant has no test on the id: on
  \<^verbatim>\<open>ID 7: Distance = 42.50 cm\<close> it stores a reading under the key 7, which the initial
  state does not have.
\<close>

theorem C2_counterexample:
  "rx_match False sensor_strict_rx (trim (cu ''ID 7: Distance = 42.50 cm''))
     = Some [cu ''7'', cu ''42.50'']
   \<and> parseInt (cu ''7'') = Fin 7
   \<and> sensors initialState (Fin 7) = None
   \<and> sensors (fst (handleData (Some (cu ''ID 7: Distance = 42.50 cm'')) (Fin 5) (Fin 6)
                     (initialState, []))) (Fin 7)
       = Some \<lparr>sid = Fin 7, distance = Fin (85 / 2), lastUpdate = Fin 5\<rparr>"
  by (simp add: handleData_def Let_def seven_lines parse_literals prop_key_def)
    (simp add: initialState_def)

text \<open>
  Claim C2, amended: when the sensor pattern matches with an id outside \<open>{1, 2, 3}\<close>, the
  readings kept for the sensors 1, 2 and 3 and the three danger flags are after the call
  what they were before it, in both variants, and nothing is raised. The fuzzy variant
  tests the id and applies no sensor update: the \<^verbatim>\<open>sensors\<close> record is as it was and the
  result is that of the GPS part alone. The strict variant has no test and stores the
  reading under the key of the id, beside the three readings.
\<close>

theorem C2_out_of_range_id:
  assumes "parseInt gi \<notin> {Fin 1, Fin 2, Fin 3}"
  shows "(rx_match False sensor_strict_rx (trim raw) = Some (gi # gd # gs)
           \<longrightarrow> sensorView (fst (handleData (Some raw) tS tG (s, logs))) = sensorView s
              \<and> sensors (fst (handleData (Some raw) tS tG (s, logs)))
                  = (sensors s)(prop_key (parseInt gi) \<mapsto>
                      \<lparr>sid = parseInt gi, distance = parseFloat gd, lastUpdate = tS\<rparr>))
       \<and> (rx_match True sensor_rx (trim line) = Some (gi # gd # gs)
           \<longrightarrow> sensorView (processLine line tS tG s) = sensorView s
              \<and> sensors (processLine line tS tG s) = sensors s
              \<and> processLine line tS tG s = gpsPart (trim line) tG s)"
proof -
  have key: "prop_key (parseInt gi) \<noteq> Fin 1" "prop_key (parseInt gi) \<noteq> Fin 2"
    "prop_key (parseInt gi) \<noteq> Fin 3"
    using assms by (simp_all add: prop_key_nonzero)
  have eq: "\<not> strict_eq (parseInt gi) (Fin 1)" "\<not> strict_eq (parseInt gi) (Fin 2)"
    "\<not> strict_eq (parseInt gi) (Fin 3)"
    using assms by (simp_all add: strict_eq_nonzero)
  have upd: "sensorView (sensorUpdate (parseInt gi) d t s') = sensorView s'" for d t s'
    using key eq by (simp add: sensorView_def)
  have gu: "sensorView (gpsUpdate la lo v t s') = sensorView s'" for la lo v t s'
    by (simp add: sensorView_def)
  have strict: "sensorView (fst (handleData (Some raw) tS tG (s, logs))) = sensorView s"
    if "rx_match False sensor_strict_rx (trim raw) = Some (gi # gd # gs)"
    using that by (auto simp: handleData_def Let_def upd gu split: option.splits list.splits)
  have stored: "sensors (fst (handleData (Some raw) tS tG (s, logs)))
                  = (sensors s)(prop_key (parseInt gi) \<mapsto>
                      \<lparr>sid = parseInt gi, distance = parseFloat gd, lastUpdate = tS\<rparr>)"
    if m: "rx_match False sensor_strict_rx (trim raw) = Some (gi # gd # gs)"
  proof -
    from m have "trim raw \<noteq> []" by auto
    with m show ?thesis
      by (simp add: handleData_def Let_def split: option.splits list.splits)
  qed
  have guard: "\<not> (num_ge (parseInt gi) (Fin 1) \<and> num_le (parseInt gi) (Fin 3))"
    using assms id_guard [of gi] by blast
  have fuzzy: "processLine line tS tG s = gpsPart (trim line) tG s"
    if m: "rx_match True sensor_rx (trim line) = Some (gi # gd # gs)"
  proof -
    from m have "trim line \<noteq> []" by auto
    with m guard show ?thesis
      by (auto simp: processLine_def sensorPart_def Let_def)
  qed
  have view: "sensorView (gpsPart l t s') = sensorView s'" for l t s'
    by (simp add: sensorView_def)
  show ?thesis
    using strict stored fuzzy by (simp add: view)
qed

theorem C2_witness:
  "parseInt (cu ''7'') \<notin> {Fin 1, Fin 2, Fin 3}
   \<and> rx_match False sensor_strict_rx (trim (cu ''ID 7: Distance = 42.50 cm''))
       = Some [cu ''7'', cu ''42.50'']
   \<and> sensorView (fst (handleData (Some (cu ''ID 7: Distance = 42.50 cm'')) (Fin 5) (Fin 6)
                        (initialState, [])))
       = sensorView initialState
   \<and> rx_match True sensor_rx (trim (cu ''S7: 42.50'')) = Some [cu ''7'', cu ''42.50'']
   \<and> sensorView (processLine (cu ''S7: 42.50'') (Fin 5) (Fin 6) initialState)
       = sensorView initialState
   \<and> processLine (cu ''S7: 42.50'') (Fin 5) (Fin 6) initialState
       = gpsPart (trim (cu ''S7: 42.50'')) (Fin 6) initialState"
proof -
  have h: "parseInt (cu ''7'') \<notin> {Fin 1, Fin 2, Fin 3}"
    by (simp add: parse_literals)
  have m: "rx_match False sensor_strict_rx (trim (cu ''ID 7: Distance = 42.50 cm''))
             = Some [cu ''7'', cu ''42.50'']"
    "rx_match True sensor_rx (trim (cu ''S7: 42.50'')) = Some [cu ''7'', cu ''42.50'']"
    by (simp_all add: seven_lines)
  show ?thesis
    using C2_out_of_range_id [OF h, where gd = "cu ''42.50''" and gs = "[]"
        and raw = "cu ''ID 7: Distance = 42.50 cm''" and line = "cu ''S7: 42.50''"
        and tS = "Fin 5" and tG = "Fin 6" and s = initialState and logs = "[]"] h m
    by blast
qed

text \<open>
  Claim C3, as stated: for every GPS line that matches, the \<^verbatim>\<open>valid\<close> field of the new
  fix is \<open>|lat| > epsilon \<or> |lng| > epsilon\<close>. The strict variant stores
  \<^verbatim>\<open>valid: true\<close> whatever the coordinates are: on \<^verbatim>\<open>Lat: 0.00001 Lng: 0.00001\<close> the
  fix is valid although neither coordinate exceeds \<open>epsilon\<close>.
\<close>

theorem C3_counterexample:
  "gps (fst (handleData (Some (cu ''Lat: 0.00001 Lng: 0.00001'')) (Fin 5) (Fin 6)
              (initialState, [])))
     = \<lparr>lat = Fin (5902958103587057 / 2 ^ 69), lng = Fin (5902958103587057 / 2 ^ 69),
        valid = True, gpsLastUpdate = Fin 6\<rparr>
   \<and> \<not> (num_gt (num_abs (Fin (5902958103587057 / 2 ^ 69))) epsilon
        \<or> num_gt (num_abs (Fin (5902958103587057 / 2 ^ 69))) epsilon)"
  by (simp add: handleData_gps tiny_line parse_literals epsilon_value)

text \<open>
  Claim C3, amended: in the fuzzy variant, for every GPS line that matches (labelled or
  comma form) the new fix has \<open>valid = (|lat| > epsilon \<or> |lng| > epsilon)\<close>, with
  \<open>epsilon\<close> the number \<^verbatim>\<open>0.0001\<close>; \<^verbatim>\<open>Lat: 0.00001 Lng: 0.00001\<close> gives
  \<open>valid = false\<close>. In the strict variant every matching GPS line gives \<open>valid = true\<close>.
\<close>

theorem C3_fix_validity:
  "(gpsFound (trim line) = Some (la, lo)
     \<longrightarrow> gps (processLine line tS tG s)
         = \<lparr>lat = la, lng = lo,
            valid = (num_gt (num_abs la) epsilon
                     \<or> num_gt (num_abs lo) epsilon),
            gpsLastUpdate = tG\<rparr>)
   \<and> valid (gps (processLine (cu ''Lat: 0.00001 Lng: 0.00001'') tS tG s)) = False
   \<and> (rx_match False gps_strict_rx (trim raw) = Some (ga # gb # gs)
     \<longrightarrow> valid (gps (fst (handleData (Some raw) tS tG (s, logs)))) = True)"
proof -
  have "gpsFound (trim (cu ''Lat: 0.00001 Lng: 0.00001''))
          = Some (Fin (5902958103587057 / 2 ^ 69), Fin (5902958103587057 / 2 ^ 69))"
    by (simp add: gpsFound_def tiny_line parse_literals)
  then have "valid (gps (processLine (cu ''Lat: 0.00001 Lng: 0.00001'') tS tG s)) = False"
    by (simp add: processLine_gps hasFix_def epsilon_value)
  then show ?thesis
    by (simp add: processLine_gps handleData_gps hasFix_def)
qed

theorem C3_witness:
  "gpsFound (trim (cu ''Lat: 34.05 Lng: -118.24''))
     = Some (Fin (2396055739249459 / 2 ^ 46), Fin (- (8320400311566991 / 2 ^ 46)))
   \<and> gps (processLine (cu ''Lat: 34.05 Lng: -118.24'') (Fin 5) (Fin 6) initialState)
     = \<lparr>lat = Fin (2396055739249459 / 2 ^ 46), lng = Fin (- (8320400311566991 / 2 ^ 46)),
        valid = True, gpsLastUpdate = Fin 6\<rparr>
   \<and> rx_match False gps_strict_rx (trim (cu ''Lat: 34.05 Lng: -118.24''))
     = Some [cu ''34.05'', cu ''-118.24'']
   \<and> valid (gps (fst (handleData (Some (cu ''Lat: 34.05 Lng: -118.24'')) (Fin 5) (Fin 6)
                       (initialState, []))))"
  using C3_fix_validity [where line = "cu ''Lat: 34.05 Lng: -118.24''"
      and la = "Fin (2396055739249459 / 2 ^ 46)" and lo = "Fin (- (8320400311566991 / 2 ^ 46))"
      and raw = "cu ''Lat: 34.05 Lng: -118.24''" and ga = "cu ''34.05''" and gb = "cu ''-118.24''"
      and gs = "[]" and tS = "Fin 5" and tG = "Fin 6" and s = initialState and logs = "[]"]
  by (simp add: gpsFound_def labelled_line parse_literals epsilon_value)

text \<open>
  Claim C7, as stated: the comma-separated line \<^verbatim>\<open>34.05,-118.24\<close> yields the same GPS
  fields as the labelled line \<^verbatim>\<open>Lat: 34.05 Lng: -118.24\<close>. The strict variant has no
  comma form: from the initial state the first line leaves the initial fix and the second
  stores the position.
\<close>

theorem C7_counterexample:
  "gps (fst (handleData (Some (cu ''34.05,-118.24'')) (Fin 5) (Fin 6) (initialState, [])))
     = \<lparr>lat = Fin 0, lng = Fin 0, valid = False, gpsLastUpdate = Fin 0\<rparr>
   \<and> gps (fst (handleData (Some (cu ''Lat: 34.05 Lng: -118.24'')) (Fin 5) (Fin 6)
                 (initialState, [])))
     = \<lparr>lat = Fin (2396055739249459 / 2 ^ 46), lng = Fin (- (8320400311566991 / 2 ^ 46)),
        valid = True, gpsLastUpdate = Fin 6\<rparr>"
proof -
  have "handleData (Some (cu ''34.05,-118.24'')) (Fin 5) (Fin 6) (initialState, [])
          = (initialState, addLog_strict (cu ''34.05,-118.24'') [])"
    by (simp add: handleData_def csv_line)
  then show ?thesis
    by (simp add: handleData_gps labelled_line parse_literals) (simp add: initialState_def)
qed

text \<open>
  Claim C7, amended: in the fuzzy variant the labelled captures are used when the latitude
  and the longitude pattern both match; the comma form is used when one of them does not
  match and the comma pattern does; otherwise there is no fix. The lines
  \<^verbatim>\<open>34.05,-118.24\<close> and \<^verbatim>\<open>Lat: 34.05 Lng: -118.24\<close> give the same state, with the fix
  \<open>(34.05, -118.24)\<close> valid. In the strict variant the comma line leaves the state as it
  was.
\<close>

theorem C7_fallback:
  "(rx_match True lat_rx (trim line) = Some (a # as)
      \<and> rx_match True lng_rx (trim line) = Some (b # bs)
    \<longrightarrow> gpsFound (trim line) = Some (parseFloat a, parseFloat b))
   \<and> ((rx_match True lat_rx (trim line) = None \<or> rx_match True lng_rx (trim line) = None)
      \<and> rx_match False commaGps_rx (trim line) = Some (ga # gb # gs)
    \<longrightarrow> gpsFound (trim line) = Some (parseFloat ga, parseFloat gb))
   \<and> ((rx_match True lat_rx (trim line) = None \<or> rx_match True lng_rx (trim line) = None)
      \<and> rx_match False commaGps_rx (trim line) = None
    \<longrightarrow> gpsFound (trim line) = None)
   \<and> (gpsFound (trim line) = Some (la, lo)
    \<longrightarrow> gps (processLine line tS tG s)
          = \<lparr>lat = la, lng = lo, valid = hasFix la lo, gpsLastUpdate = tG\<rparr>)
   \<and> processLine (cu ''34.05,-118.24'') tS tG s
       = processLine (cu ''Lat: 34.05 Lng: -118.24'') tS tG s
   \<and> gps (processLine (cu ''34.05,-118.24'') tS tG s)
       = \<lparr>lat = Fin (2396055739249459 / 2 ^ 46), lng = Fin (- (8320400311566991 / 2 ^ 46)),
          valid = True, gpsLastUpdate = tG\<rparr>
   \<and> fst (handleData (Some (cu ''34.05,-118.24'')) tS tG (s, logs)) = s"
proof -
  have found: "gpsFound (cu ''34.05,-118.24'') = Some (parseFloat (cu ''34.05''), parseFloat (cu ''-118.24''))"
    "gpsFound (cu ''Lat: 34.05 Lng: -118.24'') = Some (parseFloat (cu ''34.05''), parseFloat (cu ''-118.24''))"
    by (simp_all add: gpsFound_def csv_line labelled_line)
  have same: "processLine (cu ''34.05,-118.24'') tS tG s
                = processLine (cu ''Lat: 34.05 Lng: -118.24'') tS tG s"
    by (simp add: processLine_def sensorPart_def gpsPart_def found csv_line labelled_line)
  have thefix: "gps (processLine (cu ''34.05,-118.24'') tS tG s)
       = \<lparr>lat = Fin (2396055739249459 / 2 ^ 46), lng = Fin (- (8320400311566991 / 2 ^ 46)),
          valid = True, gpsLastUpdate = tG\<rparr>"
    using processLine_gps [of "cu ''34.05,-118.24''" "parseFloat (cu ''34.05'')"
        "parseFloat (cu ''-118.24'')" tS tG s]
    by (simp add: found csv_line parse_literals hasFix_def epsilon_value)
  have strict: "fst (handleData (Some (cu ''34.05,-118.24'')) tS tG (s, logs)) = s"
    by (simp add: handleData_def csv_line)
  have rules: "(rx_match True lat_rx (trim line) = Some (a # as)
      \<and> rx_match True lng_rx (trim line) = Some (b # bs)
    \<longrightarrow> gpsFound (trim line) = Some (parseFloat a, parseFloat b))
   \<and> ((rx_match True lat_rx (trim line) = None \<or> rx_match True lng_rx (trim line) = None)
      \<and> rx_match False commaGps_rx (trim line) = Some (ga # gb # gs)
    \<longrightarrow> gpsFound (trim line) = Some (parseFloat ga, parseFloat gb))
   \<and> ((rx_match True lat_rx (trim line) = None \<or> rx_match True lng_rx (trim line) = None)
      \<and> rx_match False commaGps_rx (trim line) = None
    \<longrightarrow> gpsFound (trim line) = None)"
    by (auto simp: gpsFound_def split: option.splits list.splits)
  show ?thesis
    using same thefix strict rules processLine_gps [of line la lo tS tG s] by blast
qed

theorem C7_witness:
  "rx_match True lat_rx (trim (cu ''Lat: 34.05 Lng: -118.24'')) = Some [cu ''34.05'']
   \<and> rx_match True lng_rx (trim (cu ''Lat: 34.05 Lng: -118.24'')) = Some [cu ''-118.24'']
   \<and> gpsFound (trim (cu ''Lat: 34.05 Lng: -118.24''))
       = Some (Fin (2396055739249459 / 2 ^ 46), Fin (- (8320400311566991 / 2 ^ 46)))
   \<and> gps (processLine (cu ''Lat: 34.05 Lng: -118.24'') (Fin 5) (Fin 6) initialState)
       = \<lparr>lat = Fin (2396055739249459 / 2 ^ 46), lng = Fin (- (8320400311566991 / 2 ^ 46)),
          valid = True, gpsLastUpdate = Fin 6\<rparr>
   \<and> rx_match True lat_rx (trim (cu ''34.05,-118.24'')) = None
   \<and> rx_match False commaGps_rx (trim (cu ''34.05,-118.24'')) = Some [cu ''34.05'', cu ''-118.24'']
   \<and> gpsFound (trim (cu ''34.05,-118.24''))
       = Some (Fin (2396055739249459 / 2 ^ 46), Fin (- (8320400311566991 / 2 ^ 46)))
   \<and> rx_match True lat_rx (trim (cu ''hello'')) = None
   \<and> rx_match False commaGps_rx (trim (cu ''hello'')) = None
   \<and> gpsFound (trim (cu ''hello'')) = None"
  using C7_fallback [where line = "cu ''Lat: 34.05 Lng: -118.24''" and a = "cu ''34.05''"
      and as = "[]" and b = "cu ''-118.24''" and bs = "[]" and tS = "Fin 5" and tG = "Fin 6"
      and s = initialState and la = "Fin (2396055739249459 / 2 ^ 46)"
      and lo = "Fin (- (8320400311566991 / 2 ^ 46))"]
    C7_fallback [where line = "cu ''34.05,-118.24''" and ga = "cu ''34.05''"
      and gb = "cu ''-118.24''" and gs = "[]"]
    C7_fallback [where line = "cu ''hello''"]
  by (simp add: labelled_line csv_line hello_trim hello_no_match parse_literals hasFix_def
      epsilon_value)

text \<open>
  Claim C4, as stated: when a captured numeric field does not parse (\<^verbatim>\<open>parseFloat\<close> gives
  \<open>NaN\<close>), the update of that field is skipped. Neither variant tests for \<open>NaN\<close>: in
  \<^verbatim>\<open>S1: . Lat: 34.05 Lng: -118.24\<close> and in
  \<^verbatim>\<open>ID 1: Distance = . cm Lat: 34.05 Lng: -118.24\<close> the distance capture is \<^verbatim>\<open>.\<close>, and
  the reading of sensor 1 is replaced by one whose distance is \<open>NaN\<close>.
\<close>

theorem C4_counterexample:
  "parseFloat (cu ''.'') = NaN
   \<and> rx_match True sensor_rx (trim (cu ''S1: . Lat: 34.05 Lng: -118.24'')) = Some [cu ''1'', cu ''.'']
   \<and> sensors initialState (Fin 1) = Some \<lparr>sid = Fin 1, distance = Fin 999, lastUpdate = Fin 0\<rparr>
   \<and> sensors (processLine (cu ''S1: . Lat: 34.05 Lng: -118.24'') (Fin 5) (Fin 6) initialState) (Fin 1)
       = Some \<lparr>sid = Fin 1, distance = NaN, lastUpdate = Fin 5\<rparr>
   \<and> rx_match False sensor_strict_rx (trim (cu ''ID 1: Distance = . cm Lat: 34.05 Lng: -118.24''))
       = Some [cu ''1'', cu ''.'']
   \<and> sensors (fst (handleData (Some (cu ''ID 1: Distance = . cm Lat: 34.05 Lng: -118.24''))
                      (Fin 5) (Fin 6) (initialState, []))) (Fin 1)
       = Some \<lparr>sid = Fin 1, distance = NaN, lastUpdate = Fin 5\<rparr>"
  by (simp add: parse_literals dot_lines processLine_def sensorPart_def handleData_def prop_key_def)
    (simp add: initialState_def)

text \<open>
  Claim C4, amended: when the distance capture of a sensor line with id 1, 2 or 3 parses to
  \<open>NaN\<close>, nothing is raised and the update is applied: the reading becomes
  \<open>{id, NaN, now}\<close> and the danger flag of that sensor false; a GPS match on the same line
  is still processed. When a GPS capture parses to \<open>NaN\<close> in the fuzzy variant, the fix is
  replaced by one holding the \<open>NaN\<close>, valid when the other coordinate exceeds \<open>epsilon\<close>;
  the strict variant stores what \<^verbatim>\<open>parseFloat\<close> returns, \<open>NaN\<close> included, with
  \<open>valid = true\<close>, on every line its GPS pattern matches.
\<close>

theorem C4_nan_is_stored:
  assumes "parseFloat gd = NaN" and "parseInt gi = i" and "i \<in> {Fin 1, Fin 2, Fin 3}"
  shows "(rx_match False sensor_strict_rx (trim raw) = Some (gi # gd # gs)
           \<longrightarrow> sensors (fst (handleData (Some raw) tS tG (s, logs))) i
                 = Some \<lparr>sid = i, distance = NaN, lastUpdate = tS\<rparr>
               \<and> \<not> dangerFlag i (fst (handleData (Some raw) tS tG (s, logs)))
               \<and> (rx_match False gps_strict_rx (trim raw) = Some (ga # gb # gs')
                   \<longrightarrow> gps (fst (handleData (Some raw) tS tG (s, logs)))
                       = \<lparr>lat = parseFloat ga, lng = parseFloat gb, valid = True,
                          gpsLastUpdate = tG\<rparr>))
       \<and> (rx_match True sensor_rx (trim line) = Some (gi # gd # gs)
           \<longrightarrow> sensors (processLine line tS tG s) i
                 = Some \<lparr>sid = i, distance = NaN, lastUpdate = tS\<rparr>
               \<and> \<not> dangerFlag i (processLine line tS tG s)
               \<and> (gpsFound (trim line) = Some (la, lo)
                   \<longrightarrow> gps (processLine line tS tG s)
                       = \<lparr>lat = la, lng = lo, valid = hasFix la lo, gpsLastUpdate = tG\<rparr>))
       \<and> (gpsFound (trim line') = Some (la', lo') \<and> (la' = NaN \<or> lo' = NaN)
           \<longrightarrow> gps (processLine line' tS tG s)
               = \<lparr>lat = la', lng = lo',
                  valid = (if la' = NaN then num_gt (num_abs lo') epsilon
                           else num_gt (num_abs la') epsilon),
                  gpsLastUpdate = tG\<rparr>)
       \<and> (rx_match False gps_strict_rx (trim raw') = Some (ha # hb # hs)
           \<longrightarrow> gps (fst (handleData (Some raw') tS tG (s, logs)))
               = \<lparr>lat = parseFloat ha, lng = parseFloat hb, valid = True,
                  gpsLastUpdate = tG\<rparr>)"
proof -
  have key: "prop_key i = i"
    using assms(3) by (auto simp: prop_key_def)
  have strict: "sensors (fst (handleData (Some raw) tS tG (s, logs))) i
                  = Some \<lparr>sid = i, distance = NaN, lastUpdate = tS\<rparr>
                \<and> \<not> dangerFlag i (fst (handleData (Some raw) tS tG (s, logs)))"
    if m: "rx_match False sensor_strict_rx (trim raw) = Some (gi # gd # gs)"
  proof -
    from m have "trim raw \<noteq> []" by auto
    with m assms key show ?thesis
      by (auto simp: handleData_def Let_def dangerFlag_def isDanger_def
          split: option.splits list.splits)
  qed
  have fuzzy: "sensors (processLine line tS tG s) i
                  = Some \<lparr>sid = i, distance = NaN, lastUpdate = tS\<rparr>
                \<and> \<not> dangerFlag i (processLine line tS tG s)"
    if m: "rx_match True sensor_rx (trim line) = Some (gi # gd # gs)"
  proof -
    from m have "trim line \<noteq> []" by auto
    with m assms key show ?thesis
      by (auto simp: processLine_def sensorPart_def Let_def dangerFlag_def isDanger_def)
  qed
  have nan: "gps (processLine line' tS tG s)
               = \<lparr>lat = la', lng = lo',
                  valid = (if la' = NaN then num_gt (num_abs lo') epsilon
                           else num_gt (num_abs la') epsilon),
                  gpsLastUpdate = tG\<rparr>"
    if "gpsFound (trim line') = Some (la', lo')" and "la' = NaN \<or> lo' = NaN"
    using processLine_gps [OF that(1)] that(2) by (auto simp: hasFix_def)
  show ?thesis
    using strict fuzzy nan handleData_gps [of raw ga gb gs' tS tG s logs]
      handleData_gps [of raw' ha hb hs tS tG s logs]
      processLine_gps [of line la lo tS tG s]
    by blast
qed

theorem C4_witness:
  "parseFloat (cu ''.'') = NaN \<and> parseInt (cu ''1'') = Fin 1
   \<and> rx_match False sensor_strict_rx (trim (cu ''ID 1: Distance = . cm Lat: 34.05 Lng: -118.24''))
       = Some [cu ''1'', cu ''.'']
   \<and> rx_match False gps_strict_rx (trim (cu ''ID 1: Distance = . cm Lat: 34.05 Lng: -118.24''))
       = Some [cu ''34.05'', cu ''-118.24'']
   \<and> gps (fst (handleData (Some (cu ''ID 1: Distance = . cm Lat: 34.05 Lng: -118.24''))
                  (Fin 5) (Fin 6) (initialState, [])))
       = \<lparr>lat = Fin (2396055739249459 / 2 ^ 46), lng = Fin (- (8320400311566991 / 2 ^ 46)),
          valid = True, gpsLastUpdate = Fin 6\<rparr>
   \<and> rx_match True sensor_rx (trim (cu ''S1: . Lat: 34.05 Lng: -118.24'')) = Some [cu ''1'', cu ''.'']
   \<and> gpsFound (trim (cu ''S1: . Lat: 34.05 Lng: -118.24''))
       = Some (Fin (2396055739249459 / 2 ^ 46), Fin (- (8320400311566991 / 2 ^ 46)))
   \<and> \<not> dangerFlag (Fin 1) (processLine (cu ''S1: . Lat: 34.05 Lng: -118.24'') (Fin 5) (Fin 6)
                             (initialState\<lparr>leftDanger := True\<rparr>))
   \<and> gps (processLine (cu ''S1: . Lat: 34.05 Lng: -118.24'') (Fin 5) (Fin 6)
            (initialState\<lparr>leftDanger := True\<rparr>))
       = \<lparr>lat = Fin (2396055739249459 / 2 ^ 46), lng = Fin (- (8320400311566991 / 2 ^ 46)),
          valid = True, gpsLastUpdate = Fin 6\<rparr>
   \<and> rx_match False gps_strict_rx (trim (cu ''Lat: - Lng: 5'')) = Some [cu ''-'', cu ''5'']
   \<and> parseFloat (cu ''-'') = NaN
   \<and> gps (fst (handleData (Some (cu ''Lat: - Lng: 5'')) (Fin 5) (Fin 6)
                  (initialState\<lparr>leftDanger := True\<rparr>, [])))
       = \<lparr>lat = NaN, lng = Fin 5, valid = True, gpsLastUpdate = Fin 6\<rparr>
   \<and> gpsFound (trim (cu ''Lat: - Lng: 5'')) = Some (NaN, Fin 5)
   \<and> gps (processLine (cu ''Lat: - Lng: 5'') (Fin 5) (Fin 6) (initialState\<lparr>leftDanger := True\<rparr>))
       = \<lparr>lat = NaN, lng = Fin 5, valid = True, gpsLastUpdate = Fin 6\<rparr>"
  using C4_nan_is_stored [where gd = "cu ''.''" and gi = "cu ''1''" and i = "Fin 1"
      and raw = "cu ''ID 1: Distance = . cm Lat: 34.05 Lng: -118.24''" and gs = "[]"
      and ga = "cu ''34.05''" and gb = "cu ''-118.24''" and gs' = "[]"
      and line = "cu ''S1: . Lat: 34.05 Lng: -118.24''"
      and la = "Fin (2396055739249459 / 2 ^ 46)" and lo = "Fin (- (8320400311566991 / 2 ^ 46))"
      and line' = "cu ''Lat: - Lng: 5''" and la' = NaN and lo' = "Fin 5"
      and raw' = "cu ''Lat: - Lng: 5''" and ha = "cu ''-''" and hb = "cu ''5''" and hs = "[]"
      and tS = "Fin 5" and tG = "Fin 6" and s = "initialState\<lparr>leftDanger := True\<rparr>"
      and logs = "[]"]
    C4_nan_is_stored [where gd = "cu ''.''" and gi = "cu ''1''" and i = "Fin 1"
      and raw = "cu ''ID 1: Distance = . cm Lat: 34.05 Lng: -118.24''" and gs = "[]"
      and ga = "cu ''34.05''" and gb = "cu ''-118.24''" and gs' = "[]"
      and line = "[]" and line' = "[]"
      and tS = "Fin 5" and tG = "Fin 6" and s = initialState and logs = "[]"]
  by (simp add: parse_literals parse_dash dot_lines dash_line gpsFound_def hasFix_def
      epsilon_value)

text \<open>
  Claim C8: every accepted non-empty line is put on the log, and the log is bounded. An
  append keeps at most N entries (10 in the strict variant, 50 in the fuzzy one); after any
  sequence of appends to a log within the bound, the log is the N newest entries, newest
  first, so that the oldest entry is the one dropped from a full log. \<^verbatim>\<open>handleData\<close>
  appends the trimmed line, the serial reader and the Bluetooth handler of the fuzzy variant
  append it behind a prefix.
\<close>

theorem C8_log_bounded:
  "length (addLog_strict m l) \<le> 10 \<and> length (addLog_fuzzy m l) \<le> 50
   \<and> (length l = 10 \<longrightarrow> addLog_strict m l = m # butlast l)
   \<and> (length l = 50 \<longrightarrow> addLog_fuzzy m l = m # butlast l)
   \<and> (length l \<le> 10 \<longrightarrow>
        foldl (\<lambda>l m. addLog_strict m l) l ms = take 10 (rev ms @ l)
        \<and> length (foldl (\<lambda>l m. addLog_strict m l) l ms) \<le> 10)
   \<and> (length l \<le> 50 \<longrightarrow>
        foldl (\<lambda>l m. addLog_fuzzy m l) l ms = take 50 (rev ms @ l)
        \<and> length (foldl (\<lambda>l m. addLog_fuzzy m l) l ms) \<le> 50)
   \<and> (trim raw \<noteq> [] \<longrightarrow>
        snd (handleData (Some raw) tS tG (s, l)) = addLog_strict (trim raw) l)
   \<and> (trim line \<noteq> [] \<longrightarrow>
        snd (serial_onLine line tS tG (s, l)) = addLog_fuzzy (cu ''>> '' @ trim line) l)
   \<and> snd (ble_onValue line tS tG (s, l)) = addLog_fuzzy (cu ''BLE >> '' @ trim line) l"
proof -
  have a: "foldl (\<lambda>l m. addLog_strict m l) l ms = take 10 (rev ms @ l)" if "length l \<le> 10"
    using addLog_strict_fold [of l ms] that by simp
  have b: "foldl (\<lambda>l m. addLog_fuzzy m l) l ms = take 50 (rev ms @ l)" if "length l \<le> 50"
    using addLog_fuzzy_fold [of l ms] that by simp
  have c: "trim raw \<noteq> [] \<Longrightarrow>
        snd (handleData (Some raw) tS tG (s, l)) = addLog_strict (trim raw) l"
    by (simp add: handleData_def Let_def)
  have d: "trim line \<noteq> [] \<Longrightarrow>
        snd (serial_onLine line tS tG (s, l)) = addLog_fuzzy (cu ''>> '' @ trim line) l"
    by (simp add: serial_onLine_def)
  have e: "snd (ble_onValue line tS tG (s, l)) = addLog_fuzzy (cu ''BLE >> '' @ trim line) l"
    by (simp add: ble_onValue_def Let_def)
  have f: "length (addLog_strict m l) \<le> 10" "length (addLog_fuzzy m l) \<le> 50"
    by (simp_all add: addLog_strict_def addLog_fuzzy_def)
  have a': "length (foldl (\<lambda>l m. addLog_strict m l) l ms) \<le> 10" if "length l \<le> 10"
    by (simp only: a [OF that] length_take min.cobounded2)
  have b': "length (foldl (\<lambda>l m. addLog_fuzzy m l) l ms) \<le> 50" if "length l \<le> 50"
    by (simp only: b [OF that] length_take min.cobounded2)
  have g: "length l = 10 \<Longrightarrow> addLog_strict m l = m # butlast l"
    "length l = 50 \<Longrightarrow> addLog_fuzzy m l = m # butlast l"
    by (simp_all add: addLog_strict_def addLog_fuzzy_def butlast_conv_take)
  show ?thesis
    using a a' b b' c d e f g by blast
qed

theorem C8_witness:
  "(length ([] :: jsstring list) \<le> 10
    \<and> foldl (\<lambda>l m. addLog_strict m l) []
         (map cu [''a'', ''b'', ''c'', ''d'', ''e'', ''f'', ''g'', ''h'', ''i'', ''j'', ''k'', ''l''])
        = map cu [''l'', ''k'', ''j'', ''i'', ''h'', ''g'', ''f'', ''e'', ''d'', ''c'']
    \<and> trim (cu ''hello'') \<noteq> []
    \<and> snd (handleData (Some (cu ''hello'')) (Fin 5) (Fin 6) (initialState, [])) = [cu ''hello'']
    \<and> snd (serial_onLine (cu ''hello'') (Fin 5) (Fin 6) (initialState, [])) = [cu ''>> hello''])
   \<and> (length (replicate 10 (cu ''old'')) = 10
    \<and> addLog_strict (cu ''new'') (replicate 10 (cu ''old''))
        = cu ''new'' # butlast (replicate 10 (cu ''old'')))
   \<and> (length (replicate 50 (cu ''old'')) = 50
    \<and> addLog_fuzzy (cu ''new'') (replicate 50 (cu ''old''))
        = cu ''new'' # butlast (replicate 50 (cu ''old'')))"
proof (intro conjI)
  have first: "length ([] :: jsstring list) \<le> 10
    \<and> foldl (\<lambda>l m. addLog_strict m l) []
         (map cu [''a'', ''b'', ''c'', ''d'', ''e'', ''f'', ''g'', ''h'', ''i'', ''j'', ''k'', ''l''])
        = map cu [''l'', ''k'', ''j'', ''i'', ''h'', ''g'', ''f'', ''e'', ''d'', ''c'']
    \<and> trim (cu ''hello'') \<noteq> []
    \<and> snd (handleData (Some (cu ''hello'')) (Fin 5) (Fin 6) (initialState, [])) = [cu ''hello'']
    \<and> snd (serial_onLine (cu ''hello'') (Fin 5) (Fin 6) (initialState, [])) = [cu ''>> hello'']"
    using C8_log_bounded [where l = "[]" and raw = "cu ''hello''" and line = "cu ''hello''"
        and ms = "map cu [''a'', ''b'', ''c'', ''d'', ''e'', ''f'', ''g'', ''h'', ''i'', ''j'', ''k'', ''l'']"
        and tS = "Fin 5" and tG = "Fin 6" and s = initialState]
    by (simp add: hello_trim addLog_strict_def addLog_fuzzy_def) (simp add: cu_def)
  then show "length ([] :: jsstring list) \<le> 10"
    and "foldl (\<lambda>l m. addLog_strict m l) []
         (map cu [''a'', ''b'', ''c'', ''d'', ''e'', ''f'', ''g'', ''h'', ''i'', ''j'', ''k'', ''l''])
        = map cu [''l'', ''k'', ''j'', ''i'', ''h'', ''g'', ''f'', ''e'', ''d'', ''c'']"
    and "trim (cu ''hello'') \<noteq> []"
    and "snd (handleData (Some (cu ''hello'')) (Fin 5) (Fin 6) (initialState, [])) = [cu ''hello'']"
    and "snd (serial_onLine (cu ''hello'') (Fin 5) (Fin 6) (initialState, [])) = [cu ''>> hello'']"
    by blast+
  show "length (replicate 10 (cu ''old'')) = 10"
    and "length (replicate 50 (cu ''old'')) = 50"
    by simp_all
  show "addLog_strict (cu ''new'') (replicate 10 (cu ''old''))
          = cu ''new'' # butlast (replicate 10 (cu ''old''))"
    using C8_log_bounded [where l = "replicate 10 (cu ''old'')" and m = "cu ''new''"]
    by simp
  show "addLog_fuzzy (cu ''new'') (replicate 50 (cu ''old''))
          = cu ''new'' # butlast (replicate 50 (cu ''old''))"
    using C8_log_bounded [where l = "replicate 50 (cu ''old'')" and m = "cu ''new''"]
    by simp
qed

text \<open>
  Claim C9, as stated: for any floats \<open>a\<close> and \<open>b\<close>, the line \<^verbatim>\<open>Lng: b Lat: a\<close> yields
  latitude \<open>a\<close> and longitude \<open>b\<close>, as \<^verbatim>\<open>Lat: a Lng: b\<close> does. The capture class
  \<^verbatim>\<open>[\d.-]+\<close> has no \<^verbatim>\<open>e\<close>: of a float written with an exponent, \<^verbatim>\<open>1e-7\<close>, only
  \<^verbatim>\<open>1\<close> is captured, and in either label order the latitude stored is 1.
\<close>

theorem C9_counterexample:
  "lat (gps (processLine (cu ''Lng: 5 Lat: 1e-7'') (Fin 5) (Fin 6) initialState)) = Fin 1
   \<and> lat (gps (processLine (cu ''Lat: 1e-7 Lng: 5'') (Fin 5) (Fin 6) initialState)) = Fin 1
   \<and> parseFloat (cu ''1e-7'') = Fin (944473296573929 / 2 ^ 73)
   \<and> Fin (944473296573929 / 2 ^ 73) \<noteq> Fin 1"
proof -
  have "gpsFound (trim (cu ''Lng: 5 Lat: 1e-7'')) = Some (Fin 1, Fin 5)"
    "gpsFound (trim (cu ''Lat: 1e-7 Lng: 5'')) = Some (Fin 1, Fin 5)"
    by (simp_all add: gpsFound_def exponent_lines parse_literals parse_dash)
  then have "lat (gps (processLine (cu ''Lng: 5 Lat: 1e-7'') (Fin 5) (Fin 6) initialState)) = Fin 1"
    "lat (gps (processLine (cu ''Lat: 1e-7 Lng: 5'') (Fin 5) (Fin 6) initialState)) = Fin 1"
    by (simp_all add: processLine_gps)
  moreover have "parseFloat (cu ''1e-7'') = Fin (944473296573929 / 2 ^ 73)"
    by (rule parse_exponent)
  ultimately show ?thesis
    by simp
qed

text \<open>
  Claim C9, amended: in the fuzzy variant the latitude and the longitude are found by two
  patterns anchored on their labels, so the order of the labels in the line does not
  matter: for all \<open>a\<close> and \<open>b\<close> that are non-empty texts of digits, points and minus signs
  (decimal notation without an exponent), the line \<^verbatim>\<open>Lng: b Lat: a\<close> gives the same state
  as \<^verbatim>\<open>Lat: a Lng: b\<close>, with latitude \<open>parseFloat a\<close> and longitude \<open>parseFloat b\<close>.
\<close>

theorem C9_label_order:
  assumes "is_num_text a" and "is_num_text b"
  shows "processLine (cu ''Lng: '' @ b @ cu '' Lat: '' @ a) tS tG s
           = processLine (cu ''Lat: '' @ a @ cu '' Lng: '' @ b) tS tG s
       \<and> gps (processLine (cu ''Lng: '' @ b @ cu '' Lat: '' @ a) tS tG s)
           = \<lparr>lat = parseFloat a, lng = parseFloat b,
              valid = hasFix (parseFloat a) (parseFloat b), gpsLastUpdate = tG\<rparr>"
proof -
  have ne: "cu ''Lng: '' @ b @ cu '' Lat: '' @ a \<noteq> []" "cu ''Lat: '' @ a @ cu '' Lng: '' @ b \<noteq> []"
    by (simp_all add: cu_def)
  have "processLine (cu ''Lng: '' @ b @ cu '' Lat: '' @ a) tS tG s
          = gpsUpdate (parseFloat a) (parseFloat b) (hasFix (parseFloat a) (parseFloat b)) tG s"
    using ne(1)
    by (simp add: processLine_def sensorPart_def gpsPart_def gpsFound_def
        lng_first_line [OF assms])
  moreover have "processLine (cu ''Lat: '' @ a @ cu '' Lng: '' @ b) tS tG s
          = gpsUpdate (parseFloat a) (parseFloat b) (hasFix (parseFloat a) (parseFloat b)) tG s"
    using ne(2)
    by (simp add: processLine_def sensorPart_def gpsPart_def gpsFound_def
        lat_first_line [OF assms])
  ultimately show ?thesis
    by simp
qed

theorem C9_witness:
  "is_num_text (cu ''34.0522'') \<and> is_num_text (cu ''-118.2437'')
   \<and> processLine (cu ''Lng: -118.2437 Lat: 34.0522'') (Fin 5) (Fin 6) initialState
       = processLine (cu ''Lat: 34.0522 Lng: -118.2437'') (Fin 5) (Fin 6) initialState
   \<and> gps (processLine (cu ''Lng: -118.2437 Lat: 34.0522'') (Fin 5) (Fin 6) initialState)
       = \<lparr>lat = Fin (1198105275243325 / 2 ^ 45), lng = Fin (- (8320660675920449 / 2 ^ 46)),
          valid = True, gpsLastUpdate = Fin 6\<rparr>"
proof -
  have t: "is_num_text (cu ''34.0522'')" "is_num_text (cu ''-118.2437'')"
    by (simp_all add: is_num_text_def cu_def is_digit_def)
  have l: "cu ''Lng: '' @ cu ''-118.2437'' @ cu '' Lat: '' @ cu ''34.0522''
             = cu ''Lng: -118.2437 Lat: 34.0522''"
    "cu ''Lat: '' @ cu ''34.0522'' @ cu '' Lng: '' @ cu ''-118.2437''
             = cu ''Lat: 34.0522 Lng: -118.2437''"
    by (simp_all add: cu_def)
  have "processLine (cu ''Lng: -118.2437 Lat: 34.0522'') (Fin 5) (Fin 6) initialState
          = processLine (cu ''Lat: 34.0522 Lng: -118.2437'') (Fin 5) (Fin 6) initialState
        \<and> gps (processLine (cu ''Lng: -118.2437 Lat: 34.0522'') (Fin 5) (Fin 6) initialState)
          = \<lparr>lat = parseFloat (cu ''34.0522''), lng = parseFloat (cu ''-118.2437''),
             valid = hasFix (parseFloat (cu ''34.0522'')) (parseFloat (cu ''-118.2437'')),
             gpsLastUpdate = Fin 6\<rparr>"
    using C9_label_order [OF t, of "Fin 5" "Fin 6" initialState] unfolding l .
  then show ?thesis
    using t by (auto simp: parse_more hasFix_def epsilon_value)
qed

end
